theory Spec2Isabelle
  imports Complex_Main
begin

section \<open>Scoring engine (internal/models/analysis.go)\<close>

text \<open>
  \<open>ParameterEvaluation\<close> is the struct of the same name. Go's \<open>int\<close> is only compared
  against constants here, so it is modelled as \<open>int\<close>. The field \<open>Status\<close> of the source
  is called \<open>EvalStatus\<close>, because the session record below has a field \<open>Status\<close> too.
\<close>

record ParameterEvaluation =
  Parameter :: string
  Value :: int
  EvalStatus :: string
  Score :: int

definition evaluateTotalChats :: "int \<Rightarrow> ParameterEvaluation" where
  "evaluateTotalChats v =
     (if v \<ge> 100 then \<lparr>Parameter = ''Total Chats'', Value = v, EvalStatus = ''Baik'', Score = 3\<rparr>
      else if v \<ge> 40 then \<lparr>Parameter = ''Total Chats'', Value = v, EvalStatus = ''Cukup'', Score = 2\<rparr>
      else \<lparr>Parameter = ''Total Chats'', Value = v, EvalStatus = ''Buruk'', Score = 1\<rparr>)"

definition evaluateTotalContacts :: "int \<Rightarrow> ParameterEvaluation" where
  "evaluateTotalContacts v =
     (if v \<ge> 200 then \<lparr>Parameter = ''Total Kontak'', Value = v, EvalStatus = ''Baik'', Score = 3\<rparr>
      else if v \<ge> 100 then \<lparr>Parameter = ''Total Kontak'', Value = v, EvalStatus = ''Cukup'', Score = 2\<rparr>
      else \<lparr>Parameter = ''Total Kontak'', Value = v, EvalStatus = ''Buruk'', Score = 1\<rparr>)"

definition evaluateAccountAge :: "int \<Rightarrow> ParameterEvaluation" where
  "evaluateAccountAge v =
     (if v \<ge> 365 then \<lparr>Parameter = ''Umur Akun'', Value = v, EvalStatus = ''Baik'', Score = 3\<rparr>
      else if v \<ge> 90 then \<lparr>Parameter = ''Umur Akun'', Value = v, EvalStatus = ''Cukup'', Score = 2\<rparr>
      else \<lparr>Parameter = ''Umur Akun'', Value = v, EvalStatus = ''Buruk'', Score = 1\<rparr>)"

definition evaluateTotalGroups :: "int \<Rightarrow> ParameterEvaluation" where
  "evaluateTotalGroups v =
     (if v \<ge> 80 then \<lparr>Parameter = ''Total Grup'', Value = v, EvalStatus = ''Baik'', Score = 3\<rparr>
      else if v \<ge> 30 then \<lparr>Parameter = ''Total Grup'', Value = v, EvalStatus = ''Cukup'', Score = 2\<rparr>
      else \<lparr>Parameter = ''Total Grup'', Value = v, EvalStatus = ''Buruk'', Score = 1\<rparr>)"

definition evaluateChatWithContacts :: "int \<Rightarrow> ParameterEvaluation" where
  "evaluateChatWithContacts v =
     (if v \<ge> 100 then \<lparr>Parameter = ''Chat dengan Kontak'', Value = v, EvalStatus = ''Baik'', Score = 3\<rparr>
      else if v \<ge> 30 then \<lparr>Parameter = ''Chat dengan Kontak'', Value = v, EvalStatus = ''Cukup'', Score = 2\<rparr>
      else \<lparr>Parameter = ''Chat dengan Kontak'', Value = v, EvalStatus = ''Buruk'', Score = 1\<rparr>)"

definition evaluateSensitiveContent :: "int \<Rightarrow> ParameterEvaluation" where
  "evaluateSensitiveContent v =
     (if v \<le> 5 then \<lparr>Parameter = ''Sensitivitas Chat'', Value = v, EvalStatus = ''Baik'', Score = 3\<rparr>
      else if v \<le> 10 then \<lparr>Parameter = ''Sensitivitas Chat'', Value = v, EvalStatus = ''Cukup'', Score = 2\<rparr>
      else \<lparr>Parameter = ''Sensitivitas Chat'', Value = v, EvalStatus = ''Buruk'', Score = 1\<rparr>)"

definition evaluateUnsavedChats :: "int \<Rightarrow> ParameterEvaluation" where
  "evaluateUnsavedChats v =
     (if v \<le> 100 then \<lparr>Parameter = ''Uninterested Chat'', Value = v, EvalStatus = ''Baik'', Score = 3\<rparr>
      else if v \<le> 500 then \<lparr>Parameter = ''Uninterested Chat'', Value = v, EvalStatus = ''Cukup'', Score = 2\<rparr>
      else \<lparr>Parameter = ''Uninterested Chat'', Value = v, EvalStatus = ''Buruk'', Score = 1\<rparr>)"

definition evaluateUnknownChats :: "int \<Rightarrow> ParameterEvaluation" where
  "evaluateUnknownChats v =
     (if v \<le> 15 then \<lparr>Parameter = ''Chat tidak dikenal'', Value = v, EvalStatus = ''Baik'', Score = 3\<rparr>
      else if v \<le> 30 then \<lparr>Parameter = ''Chat tidak dikenal'', Value = v, EvalStatus = ''Cukup'', Score = 2\<rparr>
      else \<lparr>Parameter = ''Chat tidak dikenal'', Value = v, EvalStatus = ''Buruk'', Score = 1\<rparr>)"

text \<open>
  The body of \<open>CalculateStrength\<close>, in the order of the source: the slice of the eight
  evaluations, the loop that adds the scores, the average and the label. The average is
  \<open>float64(totalScore) / 8.0\<close>; a total between 8 and 24 divided by a power of two is exact
  in binary floating point, so the quotient is taken in the reals. The textual summary
  (\<open>generateSummary\<close>) does not influence the label and is not modelled.
\<close>

definition evaluations :: "int \<Rightarrow> int \<Rightarrow> int \<Rightarrow> int \<Rightarrow> int \<Rightarrow> int \<Rightarrow> int \<Rightarrow> int \<Rightarrow> ParameterEvaluation list" where
  "evaluations totalChats totalContacts accountAgeDays totalGroups totalChatWithContact
      sensitiveContentCount totalUnsavedChats unknownNumberChats =
     [evaluateTotalChats totalChats,
      evaluateTotalContacts totalContacts,
      evaluateAccountAge accountAgeDays,
      evaluateTotalGroups totalGroups,
      evaluateChatWithContacts totalChatWithContact,
      evaluateSensitiveContent sensitiveContentCount,
      evaluateUnsavedChats totalUnsavedChats,
      evaluateUnknownChats unknownNumberChats]"

definition totalScore :: "ParameterEvaluation list \<Rightarrow> int" where
  "totalScore evals = foldl (\<lambda>acc e. acc + Score e) 0 evals"

definition averageScore :: "ParameterEvaluation list \<Rightarrow> real" where
  "averageScore evals = real_of_int (totalScore evals) / 8"

definition strengthOf :: "real \<Rightarrow> string" where
  "strengthOf avg = (if avg \<ge> 2.5 then ''Baik'' else if avg \<ge> 1.5 then ''Cukup'' else ''Buruk'')"

definition CalculateStrength :: "int \<Rightarrow> int \<Rightarrow> int \<Rightarrow> int \<Rightarrow> int \<Rightarrow> int \<Rightarrow> int \<Rightarrow> int \<Rightarrow> string" where
  "CalculateStrength totalChats totalContacts accountAgeDays totalGroups totalChatWithContact
      sensitiveContentCount totalUnsavedChats unknownNumberChats =
     strengthOf (averageScore (evaluations totalChats totalContacts accountAgeDays totalGroups
        totalChatWithContact sensitiveContentCount totalUnsavedChats unknownNumberChats))"





section \<open>The per-user session (internal/whatsapp/multi_user_manager.go)\<close>

subsection \<open>Data\<close>

text \<open>
  Clock readings (\<open>time.Time\<close>) and durations (\<open>time.Duration\<close>) are integers counting
  nanoseconds. \<open>zeroTime\<close> is the zero value of \<open>time.Time\<close> (1 January of year 1) on a
  clock whose origin is the Unix epoch. \<open>Since\<close> is \<open>time.Since\<close>: the difference,
  saturated to the range of a 64-bit duration as \<open>Time.Sub\<close> does.
\<close>

type_synonym time = int

definition Second :: int where
  "Second = 1000000000"


definition zeroTime :: time where
  "zeroTime = - 62135596800 * Second"

definition maxDuration :: int where
  "maxDuration = 2 ^ 63 - 1"

definition minDuration :: int where
  "minDuration = - (2 ^ 63)"

definition Since :: "time \<Rightarrow> time \<Rightarrow> int" where
  "Since now t =
     (let d = now - t in
      if d > maxDuration then maxDuration else if d < minDuration then minDuration else d)"

text \<open>
  The values of the messaging library the code looks at: of a \<open>types.JID\<close> its \<open>User\<close> and
  \<open>Server\<close> parts, of a \<open>types.ContactInfo\<close> its names, of a \<open>whatsmeow.Client\<close> the
  identifier of its device store (\<open>Store.ID\<close>, nil before pairing) and whether the transport
  is connected. A \<open>sqlstore.Container\<close> is known by the store behind it.
\<close>

record JID =
  User :: string
  Server :: string

record ContactInfo =
  FullName :: string
  BusinessName :: string

record Client =
  StoreID :: "JID option"
  IsConnected :: bool

datatype Container = SqliteContainer string | PostgresContainer string

text \<open>
  Every error the modelled functions return is a constructor of \<open>error\<close>, named after the
  place that returns it.
\<close>

datatype error =
    DSNRequired
  | SqlstoreNewFailed
  | GetDeviceStoreFailed
  | ConnectClientFailed
  | WhatsAppNotConnected
  | WhatsAppNotLoggedIn
  | GetContactsFailed
  | ContactsNotLoaded
  | GetJoinedGroupsFailed
  | CreateScanHistoryFailed
  | DatabaseError

text \<open>
  \<open>models.AnalysisResult\<close>: the eight metrics, the label, the summary and the link to the
  scan history row. Its \<open>UserID\<close> is called \<open>ResultUserID\<close> here, the session having a
  field \<open>UserID\<close> as well; the database bookkeeping columns are left out.
\<close>

record AnalysisResult =
  ResultUserID :: nat
  ScanHistoryID :: "nat option"
  TotalChats :: int
  TotalContacts :: int
  AccountAgeDays :: int
  TotalGroups :: int
  TotalChatWithContact :: int
  SensitiveContentCount :: int
  TotalUnsavedChats :: int
  UnknownNumberChats :: int
  Strength :: string
  Summary :: string
  ScanDate :: time

text \<open>
  \<open>UserWhatsAppSession\<close>, without its three mutexes. \<open>AnalysisCache\<close> is the
  \<open>map[string]interface{}\<close>; the only values ever stored in it are analysis results.
  Of \<open>Groups\<close> only the number of entries is read, so the keys are kept as a list.
\<close>

record UserWhatsAppSession =
  UserID :: nat
  Client :: "Client option"
  SessionDB :: "Container option"
  QRCode :: string
  Ready :: bool
  Status :: string
  LastActivity :: time
  LastConnectAttempt :: time
  AnalysisCache :: "string \<rightharpoonup> AnalysisResult"
  Groups :: "JID list"

text \<open>
  A call of \<open>saveOrUpdateSessionInDatabase\<close> on a copy of the session made of its user,
  status and last activity, as \<open>connect\<close> and \<open>waitForQR\<close> issue it.
\<close>

record StatusWrite =
  WriteUserID :: nat
  WriteStatus :: string
  WriteLastActivity :: time

subsection \<open>connect\<close>

text \<open>
  What \<open>connect\<close> learns from outside the session: the clock, the outcome of
  \<open>SessionDB.GetFirstDevice\<close> (an error, or the device store's identifier, nil when no
  credentials are stored), and whether the two calls of \<open>client.Connect\<close> succeed, the
  one that restores stored credentials and the one that opens the pairing flow. One
  reading of the clock stands for the calls of \<open>time.Now\<close> within one call of
  \<open>connect\<close>.
\<close>

record connect_env =
  now :: time
  first_device :: "error + JID option"
  restore_connects :: bool
  pairing_connects :: bool

text \<open>
  The result of \<open>connect\<close>: the returned error (\<open>None\<close> is nil), the session as it is left,
  the status writes handed to the asynchronous persistence goroutines, in order, and
  whether the pairing watcher \<open>waitForQR\<close> was started.
\<close>

record connect_result =
  returned :: "error option"
  session :: UserWhatsAppSession
  persisted :: "StatusWrite list"
  watcher_started :: bool

definition statusWrite :: "UserWhatsAppSession \<Rightarrow> StatusWrite" where
  "statusWrite s =
     \<lparr>WriteUserID = UserID s, WriteStatus = Status s, WriteLastActivity = LastActivity s\<rparr>"

text \<open>\<open>clearInvalidSession\<close> is a stub in the source: it changes nothing and returns nil.\<close>

definition clearInvalidSession :: "UserWhatsAppSession \<Rightarrow> UserWhatsAppSession" where
  "clearInvalidSession s = s"

text \<open>The pairing branch of \<open>connect\<close>, reached when nothing was restored.\<close>

definition connect_pairing :: "connect_env \<Rightarrow> JID option \<Rightarrow> UserWhatsAppSession \<Rightarrow> StatusWrite list \<Rightarrow> connect_result" where
  "connect_pairing env dev s ws =
     (if \<not> pairing_connects env then
        \<lparr>returned = Some ConnectClientFailed, session = s, persisted = ws, watcher_started = False\<rparr>
      else
        let s1 = s\<lparr>Client := Some \<lparr>StoreID = dev, IsConnected = True\<rparr>,
                   Status := ''scanning'', LastActivity := now env\<rparr>
        in \<lparr>returned = None, session = s1, persisted = ws @ [statusWrite s1],
            watcher_started = True\<rparr>)"

definition connect :: "connect_env \<Rightarrow> UserWhatsAppSession \<Rightarrow> connect_result" where
  "connect env s =
     (if Status s = ''connected'' then
        \<lparr>returned = None, session = s, persisted = [], watcher_started = False\<rparr>
      else if Status s = ''scanning'' \<or> Status s = ''connecting'' then
        \<lparr>returned = None, session = s, persisted = [], watcher_started = False\<rparr>
      else if Since (now env) (LastConnectAttempt s) < 5 * Second then
        \<lparr>returned = None, session = s, persisted = [], watcher_started = False\<rparr>
      else
        let s1 = s\<lparr>LastConnectAttempt := now env, Status := ''connecting'',
                   LastActivity := now env\<rparr>;
            ws = [statusWrite s1]
        in case first_device env of
             Inl e \<Rightarrow>
               \<lparr>returned = Some GetDeviceStoreFailed, session = s1, persisted = ws,
                watcher_started = False\<rparr>
           | Inr dev \<Rightarrow>
               (if dev \<noteq> None then
                  (if \<not> restore_connects env then
                     connect_pairing env dev (clearInvalidSession s1) ws
                   else
                     let s2 = s1\<lparr>Client := Some \<lparr>StoreID = dev, IsConnected = True\<rparr>,
                                 Status := ''connected'', Ready := True, QRCode := [],
                                 LastActivity := now env\<rparr>
                     in \<lparr>returned = None, session = s2, persisted = ws @ [statusWrite s2],
                         watcher_started = False\<rparr>)
                else connect_pairing env dev s1 ws))"

subsection \<open>waitForQR\<close>

text \<open>
  One round of the \<open>select\<close> in \<open>waitForQR\<close>. The timer of two minutes is created anew
  in every round. \<open>select_wait\<close> decides which case runs from the time until the next item
  of the pairing channel (\<open>None\<close>: no item comes): the item when it comes first, the timer
  when two minutes pass first, and the scheduler's choice \<open>tie\<close> when both are ready.
\<close>

record QRChannelItem =
  Event :: string
  Code :: string

datatype select_outcome = Received QRChannelItem | TimerFired



text \<open>
  The body of the loop. \<open>encode\<close> stands for \<open>qrcode.Encode\<close> followed by the base64
  encoding (\<open>None\<close> when the encoder fails). The result is the session, the status write
  issued (if any) and whether the function returned (\<open>False\<close>: the loop goes round again).
  The body never reads \<open>Status\<close> before it writes.
\<close>

record watcher_result =
  after :: UserWhatsAppSession
  wrote :: "StatusWrite list"
  exited :: bool

definition waitForQR_step :: "(string \<Rightarrow> string option) \<Rightarrow> time \<Rightarrow> UserWhatsAppSession \<Rightarrow> select_outcome \<Rightarrow> watcher_result" where
  "waitForQR_step encode t s out =
     (case out of
        Received item \<Rightarrow>
          if Event item = ''code'' then
            (case encode (Code item) of
               None \<Rightarrow> \<lparr>after = s, wrote = [], exited = False\<rparr>
             | Some qrBase64 \<Rightarrow>
                 \<lparr>after = s\<lparr>QRCode := ''data:image/png;base64,'' @ qrBase64\<rparr>, wrote = [],
                  exited = False\<rparr>)
          else if Event item = ''success'' then
            let s1 = s\<lparr>Status := ''connected'', Ready := True, QRCode := [], LastActivity := t\<rparr>
            in \<lparr>after = s1, wrote = [statusWrite s1], exited = True\<rparr>
          else \<lparr>after = s, wrote = [], exited = False\<rparr>
      | TimerFired \<Rightarrow>
          let s1 = s\<lparr>Status := ''disconnected'', QRCode := []\<rparr>
          in \<lparr>after = s1,
              wrote = [\<lparr>WriteUserID = UserID s1, WriteStatus = Status s1, WriteLastActivity = t\<rparr>],
              exited = True\<rparr>)"



subsection \<open>Analyze and the analysis cache\<close>

definition ClearAnalysisCache :: "UserWhatsAppSession \<Rightarrow> UserWhatsAppSession" where
  "ClearAnalysisCache s = s\<lparr>AnalysisCache := Map.empty\<rparr>"

definition isValidCache :: "UserWhatsAppSession \<Rightarrow> AnalysisResult \<Rightarrow> bool" where
  "isValidCache s result =
     (if TotalContacts result = 0 \<and> TotalChats result = 0 then False
      else case Client s of
             None \<Rightarrow> False
           | Some c \<Rightarrow> (if StoreID c \<noteq> None then True else False))"

text \<open>
  What \<open>Analyze\<close> learns from outside the session: the outcome of \<open>GetAllContacts\<close>
  (the contact map as a list of its entries) and of \<open>GetJoinedGroups\<close> (the number of
  groups), the outcome of \<open>createScanHistory\<close> and the clock. The estimates of chats,
  chats with contacts, sensitive content and account age are computed in floating point
  from the number of saved contacts and from the client's store; they are taken as given
  functions, and so is the text that \<open>generateSummary\<close> renders.
\<close>

record analyze_env =
  contacts_fetch :: "error + (JID \<times> ContactInfo) list"
  groups_fetch :: "error + nat"
  estimateTotalChats :: "nat \<Rightarrow> int"
  estimateChatsWithContacts :: "nat \<Rightarrow> int"
  estimateSensitiveContent :: "nat \<Rightarrow> int"
  estimateAccountAge :: "Client \<Rightarrow> int"
  generateSummary :: "ParameterEvaluation list \<Rightarrow> string \<Rightarrow> real \<Rightarrow> string"
  scan_history_create :: "error + nat"
  scan_time :: time

text \<open>A contact counts as saved when its full name is neither empty nor \<open>Unknown\<close>.\<close>

definition isSaved :: "JID \<times> ContactInfo \<Rightarrow> bool" where
  "isSaved jc = (FullName (snd jc) \<noteq> [] \<and> FullName (snd jc) \<noteq> ''Unknown'')"

definition calculateTotalGroups :: "analyze_env \<Rightarrow> UserWhatsAppSession \<Rightarrow> (JID \<times> ContactInfo) list \<Rightarrow> int" where
  "calculateTotalGroups env s contacts =
     (let contactGroups = int (length (filter (\<lambda>jc. Server (fst jc) = ''g.us'') contacts));
          totalGroups0 =
            (case Client s of
               None \<Rightarrow> 0
             | Some c \<Rightarrow> (case groups_fetch env of Inl e \<Rightarrow> 0 | Inr n \<Rightarrow> int n));
          storedGroups = int (length (Groups s));
          totalGroups1 =
            (if storedGroups > 0 \<and> storedGroups > totalGroups0 then storedGroups
             else totalGroups0)
      in if totalGroups1 = 0 then contactGroups else totalGroups1)"

text \<open>
  \<open>Analyze\<close> after the cache has been consulted: fetch the contacts, split them, compute
  the eight metrics and the label, store the result in the cache slot, then link the scan
  history row to the result that is returned.
\<close>

definition analyze_fresh :: "analyze_env \<Rightarrow> Client \<Rightarrow> UserWhatsAppSession \<Rightarrow> (error + AnalysisResult) \<times> UserWhatsAppSession" where
  "analyze_fresh env client s =
     (case contacts_fetch env of
        Inl e \<Rightarrow> (Inl GetContactsFailed, s)
      | Inr allContacts \<Rightarrow>
          if length allContacts = 0 then (Inl ContactsNotLoaded, s)
          else
            let savedContacts = filter isSaved allContacts;
                unsavedContacts = filter (\<lambda>jc. \<not> isSaved jc) allContacts;
                totalContacts = int (length savedContacts);
                totalChats = estimateTotalChats env (length savedContacts);
                totalGroups = calculateTotalGroups env s savedContacts;
                totalChatWithContact = estimateChatsWithContacts env (length savedContacts);
                totalUnsavedChats = int (length unsavedContacts);
                unknownNumberChats = int (length unsavedContacts);
                sensitiveContentCount = estimateSensitiveContent env (length savedContacts);
                accountAgeDays = estimateAccountAge env client;
                evals = evaluations totalChats totalContacts accountAgeDays totalGroups
                          totalChatWithContact sensitiveContentCount totalUnsavedChats
                          unknownNumberChats;
                rating = CalculateStrength totalChats totalContacts accountAgeDays totalGroups
                          totalChatWithContact sensitiveContentCount totalUnsavedChats
                          unknownNumberChats;
                result = \<lparr>ResultUserID = UserID s, ScanHistoryID = None,
                          TotalChats = totalChats, TotalContacts = totalContacts,
                          AccountAgeDays = accountAgeDays, TotalGroups = totalGroups,
                          TotalChatWithContact = totalChatWithContact,
                          SensitiveContentCount = sensitiveContentCount,
                          TotalUnsavedChats = totalUnsavedChats,
                          UnknownNumberChats = unknownNumberChats,
                          Strength = rating,
                          Summary = generateSummary env evals rating (averageScore evals),
                          ScanDate = scan_time env\<rparr>;
                s1 = s\<lparr>AnalysisCache := (AnalysisCache s)(''current_session'' \<mapsto> result)\<rparr>
            in case scan_history_create env of
                 Inl e \<Rightarrow> (Inr result, s1)
               | Inr scanHistoryID \<Rightarrow> (Inr (result\<lparr>ScanHistoryID := Some scanHistoryID\<rparr>), s1))"

definition Analyze :: "analyze_env \<Rightarrow> UserWhatsAppSession \<Rightarrow> (error + AnalysisResult) \<times> UserWhatsAppSession" where
  "Analyze env s =
     (case Client s of
        None \<Rightarrow> (Inl WhatsAppNotConnected, s)
      | Some client \<Rightarrow>
          if \<not> Ready s then (Inl WhatsAppNotLoggedIn, s)
          else case AnalysisCache s ''current_session'' of
                 None \<Rightarrow> analyze_fresh env client s
               | Some result \<Rightarrow>
                   if isValidCache s result then (Inr result, s)
                   else analyze_fresh env client (ClearAnalysisCache s))"

text \<open>
  The lookup \<open>GetCachedAnalysis\<close> makes once it holds the session: a hit needs an entry
  whose contacts or chats are positive.
\<close>

definition cachedAnalysis :: "UserWhatsAppSession \<Rightarrow> AnalysisResult option" where
  "cachedAnalysis s =
     (case AnalysisCache s ''current_session'' of
        None \<Rightarrow> None
      | Some result \<Rightarrow>
          if TotalContacts result > 0 \<or> TotalChats result > 0 then Some result else None)"

subsection \<open>The life of one session object\<close>

text \<open>
  \<open>createNewSession\<close> builds the object with status \<open>disconnected\<close>, an empty cache, no
  groups and the current time; the other fields have their zero values.
\<close>

definition newSession :: "nat \<Rightarrow> time \<Rightarrow> UserWhatsAppSession" where
  "newSession userID t =
     \<lparr>UserID = userID, Client = None, SessionDB = None, QRCode = [], Ready = False,
      Status = ''disconnected'', LastActivity = t, LastConnectAttempt = zeroTime,
      AnalysisCache = Map.empty, Groups = []\<rparr>"

text \<open>
  What \<open>Logout\<close> does to the session object it found: \<open>Client.Logout\<close> (when it succeeds
  the device is unlinked and its store identifier deleted; errors and panics are ignored),
  \<open>Client.Disconnect\<close>, then the fields are reset and the cache cleared.
\<close>

definition logout_client :: "bool \<Rightarrow> Client \<Rightarrow> Client" where
  "logout_client unlinked c =
     (let c1 = (if unlinked then c\<lparr>StoreID := None, IsConnected := False\<rparr> else c)
      in c1\<lparr>IsConnected := False\<rparr>)"

definition logout_session :: "bool \<Rightarrow> UserWhatsAppSession \<Rightarrow> UserWhatsAppSession" where
  "logout_session unlinked s =
     ClearAnalysisCache
       (s\<lparr>Client := map_option (logout_client unlinked) (Client s),
          Status := ''disconnected'', Ready := False, QRCode := []\<rparr>)"

text \<open>
  Every way the code of the manager changes a session object, each taken as one atomic
  action: \<open>connect\<close>, a round of the pairing watcher (whether or not the object is still
  registered), \<open>Analyze\<close>, \<open>ClearAnalysisCache\<close>, the store being attached by
  \<open>initializeDatabase\<close>, and \<open>Logout\<close>. A session is reachable when such actions lead
  to it from a newly built object.
\<close>

inductive session_step :: "UserWhatsAppSession \<Rightarrow> UserWhatsAppSession \<Rightarrow> bool" where
  step_connect: "session_step s (session (connect env s))"
| step_watcher: "session_step s (after (waitForQR_step encode t s out))"
| step_analyze: "session_step s (snd (Analyze aenv s))"
| step_clear: "session_step s (ClearAnalysisCache s)"
| step_store: "session_step s (s\<lparr>SessionDB := Some db\<rparr>)"
| step_logout: "session_step s (logout_session unlinked s)"

inductive reachable :: "UserWhatsAppSession \<Rightarrow> bool" where
  reachable_new: "reachable (newSession userID t)"
| reachable_step: "reachable s \<Longrightarrow> session_step s s' \<Longrightarrow> reachable s'"

text \<open>
  Two properties of a session that every action above keeps: whatever the cache holds has
  equal counts of unsaved and of unknown chats, and the cache holds something only while
  the session is ready. \<open>unsavedCount\<close> is the number of contacts whose full name is
  empty or \<open>Unknown\<close>.
\<close>

definition unsavedCount :: "(JID \<times> ContactInfo) list \<Rightarrow> nat" where
  "unsavedCount cs =
     length (filter (\<lambda>jc. FullName (snd jc) = [] \<or> FullName (snd jc) = ''Unknown'') cs)"

definition cache_consistent :: "UserWhatsAppSession \<Rightarrow> bool" where
  "cache_consistent s =
     (\<forall>k r. AnalysisCache s k = Some r \<longrightarrow> TotalUnsavedChats r = UnknownNumberChats r)"

definition cache_needs_ready :: "UserWhatsAppSession \<Rightarrow> bool" where
  "cache_needs_ready s = (Ready s \<or> AnalysisCache s = Map.empty)"

subsection \<open>The status monitor of the single-user client (internal/whatsapp/client.go)\<close>

text \<open>
  The fields of \<open>WhatsApp\<close> that \<open>monitorStatus\<close> touches, and one tick of its loop:
  \<open>ready\<close> is recomputed from the client, and when it changed to true the pairing code
  and the analysis cache are cleared.
\<close>

record WhatsApp =
  client :: "Client option"
  qrCode :: string
  ready :: bool
  analysisData :: "string \<rightharpoonup> AnalysisResult"

definition monitorStatus_tick :: "WhatsApp \<Rightarrow> WhatsApp" where
  "monitorStatus_tick w =
     (case client w of
        None \<Rightarrow> w
      | Some c \<Rightarrow>
          let oldReady = ready w;
              w1 = w\<lparr>ready := (StoreID c \<noteq> None \<and> IsConnected c)\<rparr>
          in if oldReady \<noteq> ready w1 then
               (if ready w1 then w1\<lparr>qrCode := [], analysisData := Map.empty\<rparr> else w1)
             else w1)"

section \<open>The session registry (MultiUserWhatsAppManager)\<close>

subsection \<open>The manager and what surrounds it\<close>

text \<open>\<open>fmt.Sprintf("%d", n)\<close> for an unsigned number: its decimal digits.\<close>

function decimal :: "nat \<Rightarrow> string" where
  "decimal n =
     (if n < 10 then [char_of (48 + n)]
      else decimal (n div 10) @ [char_of (48 + n mod 10)])"
  by pat_completeness auto
termination
  by (relation "measure id") auto

declare decimal.simps [simp del]

text \<open>
  A row of the table \<open>whatsapp_sessions\<close> as \<open>saveOrUpdateSessionInDatabase\<close> writes it.
  The model \<open>models.WhatsAppSession\<close> has a \<open>DeletedAt\<close> column, so a delete hides the row
  from every later query; the table is modelled as the rows queries can see, one for each
  user that has one.
\<close>

record WhatsAppSessionRow =
  RowStatus :: string
  RowDeviceID :: string
  RowLastActivity :: time

text \<open>
  The manager together with the state its methods read and write. Session objects live
  in \<open>objects\<close> under references; \<open>userSessions\<close> is the map from user to the reference
  of the user's session, so that a goroutine can keep hold of an object that the map no
  longer names. \<open>allocated\<close> counts the session objects constructed so far (the next
  reference), \<open>opened\<close> the calls of \<open>sqlstore.New\<close>. \<open>files\<close> are the files of the
  working directory. The two environment variables are read by \<open>os.Getenv\<close>.
  \<open>sqlstore_fails\<close> and \<open>database_fails\<close> say whether \<open>sqlstore.New\<close> and the statements
  on the main database return an error.
\<close>

record Manager =
  userSessions :: "nat \<rightharpoonup> nat"
  objects :: "nat \<rightharpoonup> UserWhatsAppSession"
  allocated :: nat
  opened :: nat
  whatsapp_sessions :: "nat \<rightharpoonup> WhatsAppSessionRow"
  files :: "string set"
  WA_STORE_DRIVER :: string
  WA_STORE_DSN :: string
  sqlstore_fails :: bool
  database_fails :: bool

text \<open>
  \<open>NewMultiUserWhatsAppManager\<close> makes the empty registry; its two arguments are the
  values of the environment variables the process runs with.
\<close>

definition NewMultiUserWhatsAppManager :: "string \<Rightarrow> string \<Rightarrow> Manager" where
  "NewMultiUserWhatsAppManager driver dsn =
     \<lparr>userSessions = Map.empty, objects = Map.empty, allocated = 0, opened = 0,
      whatsapp_sessions = Map.empty, files = {},
      WA_STORE_DRIVER = driver, WA_STORE_DSN = dsn,
      sqlstore_fails = False, database_fails = False\<rparr>"

definition storeFile :: "nat \<Rightarrow> string" where
  "storeFile userID = ''whatsapp_session_user_'' @ decimal userID @ ''.db''"

subsection \<open>initializeDatabase and saveOrUpdateSessionInDatabase\<close>

definition initializeDatabase :: "Manager \<Rightarrow> nat \<Rightarrow> (error + Container) \<times> Manager" where
  "initializeDatabase m userID =
     (let driver = (if WA_STORE_DRIVER m = [] then ''sqlite'' else WA_STORE_DRIVER m)
      in if driver = ''postgres'' \<or> driver = ''pgx'' then
           (if WA_STORE_DSN m = [] then (Inl DSNRequired, m)
            else if sqlstore_fails m then (Inl SqlstoreNewFailed, m\<lparr>opened := Suc (opened m)\<rparr>)
            else (Inr (PostgresContainer (WA_STORE_DSN m)), m\<lparr>opened := Suc (opened m)\<rparr>))
         else
           (if sqlstore_fails m then (Inl SqlstoreNewFailed, m\<lparr>opened := Suc (opened m)\<rparr>)
            else (Inr (SqliteContainer (storeFile userID)),
                  m\<lparr>opened := Suc (opened m), files := insert (storeFile userID) (files m)\<rparr>)))"

text \<open>
  The column \<open>status\<close> carries the constraint
  \<open>check:status IN ('connected','disconnected','scanning')\<close>; a write of another status
  is an error of the statement, like any other failure of the database. Updating the
  user's row and creating it leave the same visible row.
\<close>

definition saveOrUpdateSessionInDatabase :: "Manager \<Rightarrow> StatusWrite \<Rightarrow> error option \<times> Manager" where
  "saveOrUpdateSessionInDatabase m w =
     (if database_fails m
         \<or> WriteStatus w \<notin> {''connected'', ''disconnected'', ''scanning''}
      then (Some DatabaseError, m)
      else (None,
            m\<lparr>whatsapp_sessions := (whatsapp_sessions m)(WriteUserID w \<mapsto>
                 \<lparr>RowStatus = WriteStatus w,
                  RowDeviceID = ''user_'' @ decimal (WriteUserID w),
                  RowLastActivity = WriteLastActivity w\<rparr>)\<rparr>))"

subsection \<open>GetOrCreateSession\<close>

text \<open>
  \<open>createNewSession\<close> under the exclusive lock: the check for an existing entry, the
  construction, the store, the map entry, the status row. An error of the status row is
  only logged. \<open>t\<close> is the clock.
\<close>

definition createNewSession :: "Manager \<Rightarrow> nat \<Rightarrow> time \<Rightarrow> (error + nat) \<times> Manager" where
  "createNewSession m userID t =
     (case userSessions m userID of
        Some existing \<Rightarrow> (Inr existing, m)
      | None \<Rightarrow>
          let ref = allocated m;
              s = newSession userID t;
              m1 = m\<lparr>allocated := Suc (allocated m)\<rparr>
          in case initializeDatabase m1 userID of
               (Inl e, m2) \<Rightarrow> (Inl e, m2)
             | (Inr db, m2) \<Rightarrow>
                 let s1 = s\<lparr>SessionDB := Some db\<rparr>;
                     m3 = m2\<lparr>objects := (objects m2)(ref \<mapsto> s1),
                             userSessions := (userSessions m2)(userID \<mapsto> ref)\<rparr>
                 in (Inr ref, snd (saveOrUpdateSessionInDatabase m3 (statusWrite s1))))"

definition GetOrCreateSession :: "Manager \<Rightarrow> nat \<Rightarrow> time \<Rightarrow> (error + nat) \<times> Manager" where
  "GetOrCreateSession m userID t =
     (case userSessions m userID of
        Some ref \<Rightarrow> (Inr ref, m)
      | None \<Rightarrow> createNewSession m userID t)"

subsection \<open>The queries GetStatus, IsReady, GetClient and GetQRCode\<close>

text \<open>
  Each query obtains the session from \<open>GetOrCreateSession\<close> and reads one field. A
  reference without an object cannot come out of the map; the queries answer it like a
  failed lookup. \<open>GetQRCode\<close> also reports whether it started the goroutine that calls
  \<open>Connect\<close>.
\<close>

definition GetStatus :: "Manager \<Rightarrow> nat \<Rightarrow> time \<Rightarrow> (error + string) \<times> Manager" where
  "GetStatus m userID t =
     (case GetOrCreateSession m userID t of
        (Inl e, m') \<Rightarrow> (Inl e, m')
      | (Inr ref, m') \<Rightarrow>
          (case objects m' ref of
             None \<Rightarrow> (Inl WhatsAppNotConnected, m')
           | Some s \<Rightarrow> (Inr (Status s), m')))"

definition IsReady :: "Manager \<Rightarrow> nat \<Rightarrow> time \<Rightarrow> bool \<times> Manager" where
  "IsReady m userID t =
     (case GetOrCreateSession m userID t of
        (Inl e, m') \<Rightarrow> (False, m')
      | (Inr ref, m') \<Rightarrow>
          (case objects m' ref of
             None \<Rightarrow> (False, m')
           | Some s \<Rightarrow> (Ready s, m')))"

definition GetClient :: "Manager \<Rightarrow> nat \<Rightarrow> time \<Rightarrow> Client option \<times> Manager" where
  "GetClient m userID t =
     (case GetOrCreateSession m userID t of
        (Inl e, m') \<Rightarrow> (None, m')
      | (Inr ref, m') \<Rightarrow>
          (case objects m' ref of
             None \<Rightarrow> (None, m')
           | Some s \<Rightarrow> (Client s, m')))"

record qr_answer =
  qr_result :: "error + string"
  connect_started :: bool

definition GetQRCode :: "Manager \<Rightarrow> nat \<Rightarrow> time \<Rightarrow> qr_answer \<times> Manager" where
  "GetQRCode m userID t =
     (case GetOrCreateSession m userID t of
        (Inl e, m') \<Rightarrow> (\<lparr>qr_result = Inl e, connect_started = False\<rparr>, m')
      | (Inr ref, m') \<Rightarrow>
          (case objects m' ref of
             None \<Rightarrow> (\<lparr>qr_result = Inl WhatsAppNotConnected, connect_started = False\<rparr>, m')
           | Some s \<Rightarrow>
               let qrAvailable = (QRCode s \<noteq> []);
                   status = Status s
               in (\<lparr>qr_result = Inr (QRCode s),
                    connect_started =
                      (\<not> qrAvailable \<and> status \<noteq> ''connected'' \<and> status \<noteq> ''scanning''
                       \<and> status \<noteq> ''connecting'')\<rparr>, m')))"

text \<open>\<open>Connect\<close>: the session is obtained, then \<open>connect\<close> runs on the object.\<close>

definition Connect :: "Manager \<Rightarrow> nat \<Rightarrow> connect_env \<Rightarrow> error option \<times> Manager" where
  "Connect m userID env =
     (case GetOrCreateSession m userID (now env) of
        (Inl e, m') \<Rightarrow> (Some e, m')
      | (Inr ref, m') \<Rightarrow>
          (case objects m' ref of
             None \<Rightarrow> (Some WhatsAppNotConnected, m')
           | Some s \<Rightarrow>
               (returned (connect env s),
                m'\<lparr>objects := (objects m')(ref \<mapsto> session (connect env s))\<rparr>)))"

subsection \<open>Logout\<close>

text \<open>
  \<open>unlinked\<close> says whether \<open>Client.Logout\<close> succeeds. The files are removed only when
  the variable \<open>WA_STORE_DRIVER\<close> is empty or \<open>sqlite\<close>; an error of the delete on the
  main database is only logged. For a user without a session only the status of the
  user's row, if there is one, is set to \<open>disconnected\<close>.
\<close>

definition Logout :: "Manager \<Rightarrow> nat \<Rightarrow> bool \<Rightarrow> error option \<times> Manager" where
  "Logout m userID unlinked =
     (case userSessions m userID of
        None \<Rightarrow>
          (None,
           if database_fails m then m
           else (case whatsapp_sessions m userID of
                   None \<Rightarrow> m
                 | Some row \<Rightarrow>
                     m\<lparr>whatsapp_sessions :=
                         (whatsapp_sessions m)(userID \<mapsto> row\<lparr>RowStatus := ''disconnected''\<rparr>)\<rparr>))
      | Some ref \<Rightarrow>
          (case objects m ref of
             None \<Rightarrow> (Some WhatsAppNotConnected, m)
           | Some s \<Rightarrow>
               let files1 =
                     (if WA_STORE_DRIVER m = [] \<or> WA_STORE_DRIVER m = ''sqlite'' then
                        files m - {storeFile (UserID s), storeFile (UserID s) @ ''-wal'',
                                   storeFile (UserID s) @ ''-shm''}
                      else files m);
                   rows1 =
                     (if database_fails m then whatsapp_sessions m
                      else (whatsapp_sessions m)(userID := None))
               in (None,
                   m\<lparr>objects := (objects m)(ref \<mapsto> logout_session unlinked s),
                     userSessions := (userSessions m)(userID := None),
                     files := files1,
                     whatsapp_sessions := rows1\<rparr>)))"

subsection \<open>The pairing watcher on an object of the manager\<close>

text \<open>
  One round of \<open>waitForQR\<close> on the object behind a reference. The goroutine holds the
  object itself, not the map; its status write goes through
  \<open>saveOrUpdateSessionInDatabase\<close> on the main database.
\<close>

definition watcher_round :: "Manager \<Rightarrow> nat \<Rightarrow> (string \<Rightarrow> string option) \<Rightarrow> time \<Rightarrow> select_outcome \<Rightarrow> Manager" where
  "watcher_round m ref encode t out =
     (case objects m ref of
        None \<Rightarrow> m
      | Some s \<Rightarrow>
          let r = waitForQR_step encode t s out;
              m1 = m\<lparr>objects := (objects m)(ref \<mapsto> after r)\<rparr>
          in foldl (\<lambda>m' w. snd (saveOrUpdateSessionInDatabase m' w)) m1 (wrote r))"

subsection \<open>Concurrent callers of GetOrCreateSession\<close>

text \<open>
  A caller of \<open>GetOrCreateSession\<close> is in one of three places: before the read under the
  shared lock, between that read (which found nothing) and \<open>createNewSession\<close>, or
  returned. Each locked region is one step. A schedule names, step by step, the caller
  that moves and the clock it reads.
\<close>

datatype call_state = Calling | Creating | Done "error + nat"

definition caller_step :: "Manager \<Rightarrow> time \<Rightarrow> nat \<times> call_state \<Rightarrow> Manager \<times> (nat \<times> call_state)" where
  "caller_step m t c =
     (case snd c of
        Calling \<Rightarrow>
          (case userSessions m (fst c) of
             Some ref \<Rightarrow> (m, (fst c, Done (Inr ref)))
           | None \<Rightarrow> (m, (fst c, Creating)))
      | Creating \<Rightarrow>
          (let r = createNewSession m (fst c) t in (snd r, (fst c, Done (fst r))))
      | Done res \<Rightarrow> (m, c))"

fun run_callers :: "Manager \<Rightarrow> (nat \<times> call_state) list \<Rightarrow> (nat \<times> time) list \<Rightarrow> Manager \<times> (nat \<times> call_state) list" where
  "run_callers m cs [] = (m, cs)"
| "run_callers m cs ((i, t) # sched) =
     (if i < length cs then
        (let r = caller_step m t (cs ! i) in run_callers (fst r) (cs[i := snd r]) sched)
      else run_callers m cs sched)"

text \<open>
  The store of a new session can be set up when \<open>sqlstore.New\<close> does not fail and, for
  the drivers \<open>postgres\<close> and \<open>pgx\<close>, the variable \<open>WA_STORE_DSN\<close> is set.
\<close>

definition store_available :: "Manager \<Rightarrow> bool" where
  "store_available m =
     (\<not> sqlstore_fails m
      \<and> \<not> ((WA_STORE_DRIVER m = ''postgres'' \<or> WA_STORE_DRIVER m = ''pgx'') \<and> WA_STORE_DSN m = []))"

text \<open>
  The number of steps a caller still has to take, and the property of a run of callers of
  one user \<open>u\<close> that started from the manager \<open>m0\<close> in which \<open>u\<close> had no session: the
  environment is unchanged; when the store can be set up, either nothing has been
  constructed and nobody has returned, or exactly one object has been constructed and
  stored and everybody who returned holds it; when it cannot, nothing is stored and
  everybody who returned holds an error.
\<close>

fun steps_left :: "call_state \<Rightarrow> nat" where
  "steps_left Calling = 2"
| "steps_left Creating = 1"
| "steps_left (Done r) = 0"

definition callers_inv :: "Manager \<Rightarrow> nat \<Rightarrow> Manager \<Rightarrow> (nat \<times> call_state) list \<Rightarrow> bool" where
  "callers_inv m0 u m cs =
     ((\<forall>c\<in>set cs. fst c = u)
      \<and> WA_STORE_DRIVER m = WA_STORE_DRIVER m0 \<and> WA_STORE_DSN m = WA_STORE_DSN m0
      \<and> sqlstore_fails m = sqlstore_fails m0
      \<and> (if store_available m0 then
            (userSessions m u = None \<and> allocated m = allocated m0 \<and> opened m = opened m0
               \<and> (\<forall>c\<in>set cs. \<forall>r. snd c \<noteq> Done r))
            \<or> (userSessions m u = Some (allocated m0) \<and> allocated m = Suc (allocated m0)
               \<and> opened m = Suc (opened m0)
               \<and> (\<forall>c\<in>set cs. \<forall>r. snd c = Done r \<longrightarrow> r = Inr (allocated m0)))
          else userSessions m u = None
               \<and> (\<forall>c\<in>set cs. \<forall>r. snd c = Done r \<longrightarrow> (\<exists>e. r = Inl e))))"

subsection \<open>A run of the manager: a user pairs and logs out\<close>

text \<open>
  The manager after user 7 was first seen (default store, working database), the
  environment of a \<open>connect\<close> that finds no stored credentials and opens the pairing
  flow, and the manager after that \<open>Connect\<close> followed by \<open>Logout\<close>, while the pairing
  watcher started by \<open>connect\<close> is still waiting on the object with reference 0.
\<close>

definition registered_user_7 :: Manager where
  "registered_user_7 = snd (GetOrCreateSession (NewMultiUserWhatsAppManager [] []) 7 0)"

definition pairing_env :: connect_env where
  "pairing_env = \<lparr>now = 100 * Second, first_device = Inr None, restore_connects = False,
      pairing_connects = True\<rparr>"

definition logged_out_while_pairing :: Manager where
  "logged_out_while_pairing =
     snd (Logout (snd (Connect registered_user_7 7 pairing_env)) 7 True)"


section \<open>The access gate (PaymentService and HandleAnalyze)\<close>

text \<open>
  A row of the table \<open>transactions\<close>, with the three columns the two queries compare.
  \<open>PaymentService\<close> is the service with the table behind its \<open>db\<close>; \<open>query_errors\<close>
  tells, for the queries still to come and in their order, whether the database answers
  with an error (past the end of the list it does not). Strings are compared exactly.
\<close>

record Transaction =
  TxUserID :: int
  TxPhoneNumber :: string
  TxStatus :: string

record PaymentService =
  transactions :: "Transaction list"
  query_errors :: "bool list"

definition next_query :: "PaymentService \<Rightarrow> bool \<times> PaymentService" where
  "next_query ps =
     (case query_errors ps of
        [] \<Rightarrow> (False, ps)
      | failed # later \<Rightarrow> (failed, ps\<lparr>query_errors := later\<rparr>))"

definition CheckIfUserPaidForPhone :: "PaymentService \<Rightarrow> int \<Rightarrow> string \<Rightarrow> (error + bool) \<times> PaymentService" where
  "CheckIfUserPaidForPhone ps userID phoneNumber =
     (let q = next_query ps;
          count = length (filter (\<lambda>tx. TxUserID tx = userID \<and> TxPhoneNumber tx = phoneNumber
                                      \<and> TxStatus tx = ''paid'') (transactions ps))
      in if fst q then (Inl DatabaseError, snd q) else (Inr (count > 0), snd q))"

definition CheckIfUserHasAnyPaidTransaction :: "PaymentService \<Rightarrow> int \<Rightarrow> (error + bool) \<times> PaymentService" where
  "CheckIfUserHasAnyPaidTransaction ps userID =
     (let q = next_query ps;
          count = length (filter (\<lambda>tx. TxUserID tx = userID \<and> TxStatus tx = ''paid'')
                            (transactions ps))
      in if fst q then (Inl DatabaseError, snd q) else (Inr (count > 0), snd q))"

text \<open>
  The conversion \<open>int(userID)\<close> of the handler, from a 64-bit unsigned to a 64-bit signed
  number.
\<close>

definition int_of_uint :: "nat \<Rightarrow> int" where
  "int_of_uint n = (if n mod 2 ^ 64 < 2 ^ 63 then int (n mod 2 ^ 64) else int (n mod 2 ^ 64) - 2 ^ 64)"

text \<open>
  The part of \<open>HandleAnalyze\<close> between the authenticated user and the analysis: the
  client of the user's session (as \<open>GetClient\<close> returned it), the phone number taken from
  the client's store identifier, the main database (\<open>None\<close> when \<open>GetDB\<close> returns nil),
  and the two payment queries. The outcomes are the responses of the handler:
  503 when there is no paired client, 500 when no phone number can be extracted, when the
  database is missing or when the first query fails, 402 with an \<open>error_type\<close> when
  payment is missing, and otherwise the handler goes on to the analysis.
\<close>

datatype gate_outcome =
    ClientNotAvailable
  | PhoneNotExtracted
  | DatabaseNotInitialized
  | VerifyPaymentFailed
  | PaymentRequired string
  | PaymentVerified

definition http_status :: "gate_outcome \<Rightarrow> nat option" where
  "http_status out =
     (case out of
        ClientNotAvailable \<Rightarrow> Some 503
      | PhoneNotExtracted \<Rightarrow> Some 500
      | DatabaseNotInitialized \<Rightarrow> Some 500
      | VerifyPaymentFailed \<Rightarrow> Some 500
      | PaymentRequired error_type \<Rightarrow> Some 402
      | PaymentVerified \<Rightarrow> None)"

definition HandleAnalyze_gate :: "Client option \<Rightarrow> PaymentService option \<Rightarrow> nat \<Rightarrow> gate_outcome" where
  "HandleAnalyze_gate waClient db userID =
     (case waClient of
        None \<Rightarrow> ClientNotAvailable
      | Some c \<Rightarrow>
          (case StoreID c of
             None \<Rightarrow> ClientNotAvailable
           | Some jid \<Rightarrow>
               let whatsappPhoneNumber = User jid
               in if whatsappPhoneNumber = [] then PhoneNotExtracted
                  else case db of
                         None \<Rightarrow> DatabaseNotInitialized
                       | Some paymentService \<Rightarrow>
                           (case CheckIfUserPaidForPhone paymentService (int_of_uint userID)
                                   whatsappPhoneNumber of
                              (Inl e, ps1) \<Rightarrow> VerifyPaymentFailed
                            | (Inr hasPaidForPhone, ps1) \<Rightarrow>
                                if \<not> hasPaidForPhone then
                                  (let hasAnyPaidTransaction =
                                         (case CheckIfUserHasAnyPaidTransaction ps1
                                                 (int_of_uint userID) of
                                            (Inl e, ps2) \<Rightarrow> False
                                          | (Inr b, ps2) \<Rightarrow> b)
                                   in if hasAnyPaidTransaction
                                      then PaymentRequired ''wrong_phone_number''
                                      else PaymentRequired ''no_payment'')
                                else PaymentVerified)))"

text \<open>
  The words of the specification: a paid transaction exists for the pair of user and
  phone number, and a paid transaction exists for the user at all. \<open>query_fails\<close> says
  whether the \<open>n\<close>-th query to come is answered with an error.
\<close>

definition paid_for :: "Transaction list \<Rightarrow> int \<Rightarrow> string \<Rightarrow> bool" where
  "paid_for txs userID phone =
     (\<exists>tx. tx \<in> set txs \<and> TxUserID tx = userID \<and> TxPhoneNumber tx = phone \<and> TxStatus tx = ''paid'')"

definition paid_at_all :: "Transaction list \<Rightarrow> int \<Rightarrow> bool" where
  "paid_at_all txs userID =
     (\<exists>tx. tx \<in> set txs \<and> TxUserID tx = userID \<and> TxStatus tx = ''paid'')"

definition query_fails :: "PaymentService \<Rightarrow> nat \<Rightarrow> bool" where
  "query_fails ps n = (n < length (query_errors ps) \<and> query_errors ps ! n)"

definition bound_to :: "string \<Rightarrow> Client option" where
  "bound_to phone =
     Some \<lparr>StoreID = Some \<lparr>User = phone, Server = ''s.whatsapp.net''\<rparr>, IsConnected = True\<rparr>"

section \<open>Properties of the scoring engine\<close>










section \<open>Properties of connect and of the pairing watcher\<close>


















text \<open>
  Claim C5. \<open>connect\<close> is idempotent and rate limited: when the status is \<open>connected\<close>,
  \<open>scanning\<close> or \<open>connecting\<close>, or when less than five seconds have passed since the last
  attempt, the call returns nil, leaves the session as it is (every field), hands nothing
  to the persistence goroutines and starts no watcher.
\<close>

theorem connect_guard_is_noop:
  assumes "Status s = ''connected'' \<or> Status s = ''scanning'' \<or> Status s = ''connecting''
           \<or> Since (now env) (LastConnectAttempt s) < 5 * Second"
  shows "connect env s = \<lparr>returned = None, session = s, persisted = [], watcher_started = False\<rparr>"
  using assms by (auto simp add: connect_def)

theorem connect_guard_is_noop_witness:
  "Since (103 * Second) (100 * Second) < 5 * Second
   \<and> connect \<lparr>now = 103 * Second, first_device = Inr None, restore_connects = False,
        pairing_connects = True\<rparr> ((newSession 7 0)\<lparr>LastConnectAttempt := 100 * Second\<rparr>)
     = \<lparr>returned = None, session = (newSession 7 0)\<lparr>LastConnectAttempt := 100 * Second\<rparr>,
        persisted = [], watcher_started = False\<rparr>
   \<and> connect \<lparr>now = 200 * Second, first_device = Inr None, restore_connects = False,
        pairing_connects = True\<rparr> ((newSession 7 0)\<lparr>Status := ''scanning''\<rparr>)
     = \<lparr>returned = None, session = (newSession 7 0)\<lparr>Status := ''scanning''\<rparr>,
        persisted = [], watcher_started = False\<rparr>"
proof -
  have since: "Since (103 * Second) (100 * Second) < 5 * Second"
    by (simp add: Since_def Second_def maxDuration_def minDuration_def Let_def)
  from since connect_guard_is_noop [of "(newSession 7 0)\<lparr>LastConnectAttempt := 100 * Second\<rparr>"
      "\<lparr>now = 103 * Second, first_device = Inr None, restore_connects = False,
        pairing_connects = True\<rparr>"]
    connect_guard_is_noop [of "(newSession 7 0)\<lparr>Status := ''scanning''\<rparr>"
      "\<lparr>now = 200 * Second, first_device = Inr None, restore_connects = False,
        pairing_connects = True\<rparr>"]
  show ?thesis by simp
qed

section \<open>Properties of Analyze and of the analysis cache\<close>

lemma analyze_fresh_result:
  assumes "analyze_fresh env c s = (Inr r, s')"
  shows "\<exists>cs. contacts_fetch env = Inr cs \<and> TotalUnsavedChats r = int (unsavedCount cs)
           \<and> UnknownNumberChats r = int (unsavedCount cs)"
  using assms
  by (auto simp add: analyze_fresh_def Let_def unsavedCount_def isSaved_def
      split: sum.splits if_splits)

lemma analyze_fresh_cache:
  assumes "cache_consistent s"
  shows "cache_consistent (snd (analyze_fresh env c s))"
  using assms
  by (auto simp add: analyze_fresh_def Let_def cache_consistent_def
      split: sum.splits if_splits)

lemma clear_consistent: "cache_consistent (ClearAnalysisCache s)"
  by (simp add: cache_consistent_def ClearAnalysisCache_def)

lemma Analyze_cache:
  assumes "cache_consistent s"
  shows "cache_consistent (snd (Analyze env s))"
  using assms analyze_fresh_cache [of s env] analyze_fresh_cache [OF clear_consistent, of env _ s]
  by (auto simp add: Analyze_def split: option.splits)

lemma connect_cache: "AnalysisCache (session (connect env s)) = AnalysisCache s"
  by (auto simp add: connect_def connect_pairing_def Let_def clearInvalidSession_def
      split: sum.splits option.splits)

lemma watcher_cache: "AnalysisCache (after (waitForQR_step encode t s out)) = AnalysisCache s"
  by (auto simp add: waitForQR_step_def Let_def split: select_outcome.splits option.splits)

lemma step_consistent:
  assumes "session_step s s'" and "cache_consistent s"
  shows "cache_consistent s'"
  using assms
proof (cases rule: session_step.cases)
  case (step_connect env)
  with assms(2) show ?thesis by (simp add: cache_consistent_def connect_cache)
next
  case (step_watcher encode t out)
  with assms(2) show ?thesis by (simp add: cache_consistent_def watcher_cache)
next
  case (step_analyze aenv)
  with assms(2) show ?thesis by (simp add: Analyze_cache)
next
  case step_clear
  then show ?thesis by (simp add: clear_consistent)
next
  case (step_store db)
  with assms(2) show ?thesis by (simp add: cache_consistent_def)
next
  case (step_logout unlinked)
  then show ?thesis by (simp add: logout_session_def clear_consistent)
qed

lemma reachable_consistent: "reachable s \<Longrightarrow> cache_consistent s"
proof (induction rule: reachable.induct)
  case (reachable_new userID t)
  show ?case by (simp add: cache_consistent_def newSession_def)
next
  case (reachable_step s s')
  then show ?case by (simp add: step_consistent)
qed

text \<open>
  Claim C10. Every result that \<open>Analyze\<close> returns on a session of the manager has equal
  counts of unsaved and of unknown chats. A result that is computed, not taken from the
  cache, has both set to the number of fetched contacts whose full name is empty or
  \<open>Unknown\<close>; a result taken from the cache was stored by an earlier call of \<open>Analyze\<close>,
  the only writer of the cache slot.
\<close>

theorem Analyze_unsaved_equals_unknown:
  assumes "reachable s" and "Analyze env s = (Inr r, s')"
  shows "TotalUnsavedChats r = UnknownNumberChats r
    \<and> ((\<forall>c. AnalysisCache s ''current_session'' = Some c \<longrightarrow> \<not> isValidCache s c) \<longrightarrow>
         (\<exists>cs. contacts_fetch env = Inr cs \<and> TotalUnsavedChats r = int (unsavedCount cs)
            \<and> UnknownNumberChats r = int (unsavedCount cs)))"
proof -
  from assms(1) have inv: "cache_consistent s" by (rule reachable_consistent)
  show ?thesis
  proof (cases "\<exists>c. AnalysisCache s ''current_session'' = Some c \<and> isValidCache s c")
    case True
    then obtain c where c: "AnalysisCache s ''current_session'' = Some c" "isValidCache s c" by blast
    with assms(2) have "r = c"
      by (auto simp add: Analyze_def split: option.splits if_splits)
    with c inv show ?thesis by (auto simp add: cache_consistent_def)
  next
    case False
    with assms(2) obtain cl s0 where "analyze_fresh env cl s0 = (Inr r, s')"
      by (auto simp add: Analyze_def split: option.splits if_splits)
    from analyze_fresh_result [OF this] show ?thesis by auto
  qed
qed

theorem Analyze_unsaved_equals_unknown_witness:
  "reachable (session (connect
       \<lparr>now = 100 * Second, first_device = Inr (Some \<lparr>User = ''628111'', Server = ''s.whatsapp.net''\<rparr>),
        restore_connects = True, pairing_connects = True\<rparr> (newSession 7 0)))
   \<and> (\<exists>r s'. Analyze
        \<lparr>contacts_fetch = Inr
           [(\<lparr>User = ''628222'', Server = ''s.whatsapp.net''\<rparr>, \<lparr>FullName = ''Ani'', BusinessName = []\<rparr>),
            (\<lparr>User = ''628333'', Server = ''s.whatsapp.net''\<rparr>, \<lparr>FullName = [], BusinessName = []\<rparr>),
            (\<lparr>User = ''628444'', Server = ''s.whatsapp.net''\<rparr>, \<lparr>FullName = ''Unknown'', BusinessName = []\<rparr>)],
         groups_fetch = Inr 0, estimateTotalChats = (\<lambda>n. int n),
         estimateChatsWithContacts = (\<lambda>n. int n), estimateSensitiveContent = (\<lambda>n. 0),
         estimateAccountAge = (\<lambda>c. 365), generateSummary = (\<lambda>e l a. []),
         scan_history_create = Inr 1, scan_time = 200 * Second\<rparr>
        (session (connect
          \<lparr>now = 100 * Second, first_device = Inr (Some \<lparr>User = ''628111'', Server = ''s.whatsapp.net''\<rparr>),
           restore_connects = True, pairing_connects = True\<rparr> (newSession 7 0))) = (Inr r, s')
       \<and> TotalUnsavedChats r = UnknownNumberChats r \<and> TotalUnsavedChats r = 2)"
proof -
  let ?env = "\<lparr>now = 100 * Second, first_device = Inr (Some \<lparr>User = ''628111'', Server = ''s.whatsapp.net''\<rparr>),
        restore_connects = True, pairing_connects = True\<rparr>"
  let ?s0 = "session (connect ?env (newSession 7 0))"
  let ?cs = "[(\<lparr>User = ''628222'', Server = ''s.whatsapp.net''\<rparr>, \<lparr>FullName = ''Ani'', BusinessName = []\<rparr>),
            (\<lparr>User = ''628333'', Server = ''s.whatsapp.net''\<rparr>, \<lparr>FullName = [], BusinessName = []\<rparr>),
            (\<lparr>User = ''628444'', Server = ''s.whatsapp.net''\<rparr>, \<lparr>FullName = ''Unknown'', BusinessName = []\<rparr>)]"
  let ?aenv = "\<lparr>contacts_fetch = Inr ?cs,
         groups_fetch = Inr 0, estimateTotalChats = (\<lambda>n. int n),
         estimateChatsWithContacts = (\<lambda>n. int n), estimateSensitiveContent = (\<lambda>n. 0),
         estimateAccountAge = (\<lambda>c. 365), generateSummary = (\<lambda>e l a. []),
         scan_history_create = Inr 1, scan_time = 200 * Second\<rparr>"
  have reach: "reachable ?s0"
    by (rule reachable_step [OF reachable_new step_connect])
  have since: "\<not> Since (100 * Second) zeroTime < 5 * Second"
    by (simp add: Since_def zeroTime_def Second_def maxDuration_def minDuration_def Let_def)
  have s0: "Client ?s0 = Some \<lparr>StoreID = Some \<lparr>User = ''628111'', Server = ''s.whatsapp.net''\<rparr>,
      IsConnected = True\<rparr>" "Ready ?s0" "AnalysisCache ?s0 ''current_session'' = None"
    using since by (simp_all add: connect_def newSession_def Let_def)
  have "\<exists>r s'. Analyze ?aenv ?s0 = (Inr r, s')"
    by (simp add: Analyze_def s0 analyze_fresh_def Let_def)
  then obtain r s' where eq: "Analyze ?aenv ?s0 = (Inr r, s')" by blast
  from Analyze_unsaved_equals_unknown [OF reach eq] s0(3)
  obtain cs where "contacts_fetch ?aenv = Inr cs" "TotalUnsavedChats r = int (unsavedCount cs)"
    and same: "TotalUnsavedChats r = UnknownNumberChats r"
    by auto
  then have "TotalUnsavedChats r = 2" by (auto simp add: unsavedCount_def)
  with reach eq same show ?thesis by blast
qed

lemma connect_ready: "Ready s \<Longrightarrow> Ready (session (connect env s))"
  by (auto simp add: connect_def connect_pairing_def Let_def clearInvalidSession_def
      split: sum.splits option.splits)

lemma watcher_ready: "Ready s \<Longrightarrow> Ready (after (waitForQR_step encode t s out))"
  by (auto simp add: waitForQR_step_def Let_def split: select_outcome.splits option.splits)

lemma Analyze_not_ready: "\<not> Ready s \<Longrightarrow> snd (Analyze env s) = s"
  by (auto simp add: Analyze_def split: option.splits)

lemma analyze_fresh_ready: "Ready (snd (analyze_fresh env c s)) = Ready s"
  by (auto simp add: analyze_fresh_def Let_def split: sum.splits)

lemma Analyze_ready: "Ready (snd (Analyze env s)) = Ready s"
  by (auto simp add: Analyze_def analyze_fresh_ready ClearAnalysisCache_def split: option.splits)

lemma step_keeps_empty:
  assumes "session_step s s'" and "\<not> Ready s" and "AnalysisCache s = Map.empty"
  shows "AnalysisCache s' = Map.empty"
  using assms
  by (cases rule: session_step.cases)
     (simp_all add: connect_cache watcher_cache Analyze_not_ready ClearAnalysisCache_def logout_session_def)

lemma step_needs_ready:
  assumes "session_step s s'" and "cache_needs_ready s"
  shows "cache_needs_ready s'"
proof (cases "Ready s")
  case False
  with assms(2) have "AnalysisCache s = Map.empty" by (simp add: cache_needs_ready_def)
  from step_keeps_empty [OF assms(1) False this] show ?thesis by (simp add: cache_needs_ready_def)
next
  case True
  from assms(1) show ?thesis
  proof (cases rule: session_step.cases)
    case (step_connect env)
    with True show ?thesis by (simp add: cache_needs_ready_def connect_ready)
  next
    case (step_watcher encode t out)
    with True show ?thesis by (simp add: cache_needs_ready_def watcher_ready)
  next
    case (step_analyze aenv)
    with True show ?thesis by (simp add: cache_needs_ready_def Analyze_ready)
  next
    case step_clear
    then show ?thesis by (simp add: cache_needs_ready_def ClearAnalysisCache_def)
  next
    case (step_store db)
    with True show ?thesis by (simp add: cache_needs_ready_def)
  next
    case (step_logout unlinked)
    then show ?thesis by (simp add: cache_needs_ready_def logout_session_def ClearAnalysisCache_def)
  qed
qed

lemma reachable_needs_ready: "reachable s \<Longrightarrow> cache_needs_ready s"
proof (induction rule: reachable.induct)
  case (reachable_new userID t)
  show ?case by (simp add: cache_needs_ready_def newSession_def)
next
  case (reachable_step s s')
  then show ?case by (simp add: step_needs_ready)
qed

text \<open>
  Claim C7. Whenever an action of the manager takes a session from not ready to ready, the
  analysis cache of the session is empty afterwards, so a lookup of the cached analysis
  misses: the cache is filled only by \<open>Analyze\<close> on a ready session, and \<open>Logout\<close>, the
  only action that takes \<open>Ready\<close> away, clears it. In the single-user client, a tick of
  \<open>monitorStatus\<close> that finds the client newly ready clears the cache and the pairing code.
\<close>

theorem ready_transition_clears_cache:
  "(reachable s \<and> session_step s s' \<and> \<not> Ready s \<and> Ready s'
      \<longrightarrow> AnalysisCache s' = Map.empty \<and> cachedAnalysis s' = None)
   \<and> (\<not> ready w \<and> ready (monitorStatus_tick w)
      \<longrightarrow> analysisData (monitorStatus_tick w) = Map.empty \<and> qrCode (monitorStatus_tick w) = [])"
proof -
  have a: "AnalysisCache s' = Map.empty \<and> cachedAnalysis s' = None"
    if "reachable s" "session_step s s'" "\<not> Ready s"
  proof -
    from reachable_needs_ready [OF that(1)] that(3) have "AnalysisCache s = Map.empty"
      by (simp add: cache_needs_ready_def)
    from step_keeps_empty [OF that(2) that(3) this] show ?thesis
      by (simp add: cachedAnalysis_def)
  qed
  have b: "analysisData (monitorStatus_tick w) = Map.empty \<and> qrCode (monitorStatus_tick w) = []"
    if "\<not> ready w" "ready (monitorStatus_tick w)"
    using that by (auto simp add: monitorStatus_tick_def Let_def split: option.splits if_splits)
  from a b show ?thesis by blast
qed


theorem ready_transition_clears_cache_witness:
  "reachable (newSession 7 0)
   \<and> session_step (newSession 7 0) (after (waitForQR_step (\<lambda>c. Some c) 5 (newSession 7 0)
        (Received \<lparr>Event = ''success'', Code = []\<rparr>)))
   \<and> \<not> Ready (newSession 7 0)
   \<and> Ready (after (waitForQR_step (\<lambda>c. Some c) 5 (newSession 7 0)
        (Received \<lparr>Event = ''success'', Code = []\<rparr>)))
   \<and> cachedAnalysis (after (waitForQR_step (\<lambda>c. Some c) 5 (newSession 7 0)
        (Received \<lparr>Event = ''success'', Code = []\<rparr>))) = None
   \<and> analysisData (monitorStatus_tick
        \<lparr>client = Some \<lparr>StoreID = Some \<lparr>User = ''628111'', Server = ''s.whatsapp.net''\<rparr>,
           IsConnected = True\<rparr>, qrCode = ''data'', ready = False,
         analysisData = Map.empty(''current_session'' \<mapsto>
           \<lparr>ResultUserID = 1, ScanHistoryID = None, TotalChats = 13, TotalContacts = 10,
            AccountAgeDays = 365, TotalGroups = 0, TotalChatWithContact = 8,
            SensitiveContentCount = 1, TotalUnsavedChats = 2, UnknownNumberChats = 2,
            Strength = ''Cukup'', Summary = [], ScanDate = 0\<rparr>)\<rparr>) = Map.empty"
proof -
  let ?s' = "after (waitForQR_step (\<lambda>c. Some c) 5 (newSession 7 0)
        (Received \<lparr>Event = ''success'', Code = []\<rparr>))"
  let ?w = "\<lparr>client = Some \<lparr>StoreID = Some \<lparr>User = ''628111'', Server = ''s.whatsapp.net''\<rparr>,
           IsConnected = True\<rparr>, qrCode = ''data'', ready = False,
         analysisData = Map.empty(''current_session'' \<mapsto>
           \<lparr>ResultUserID = 1, ScanHistoryID = None, TotalChats = 13, TotalContacts = 10,
            AccountAgeDays = 365, TotalGroups = 0, TotalChatWithContact = 8,
            SensitiveContentCount = 1, TotalUnsavedChats = 2, UnknownNumberChats = 2,
            Strength = ''Cukup'', Summary = [], ScanDate = 0\<rparr>)\<rparr>"
  have reach: "reachable (newSession 7 0)" by (rule reachable_new)
  have step: "session_step (newSession 7 0) ?s'" by (rule step_watcher)
  have before: "\<not> Ready (newSession 7 0)" by (simp add: newSession_def)
  have after: "Ready ?s'" by (simp add: waitForQR_step_def Let_def)
  have w: "\<not> ready ?w" "ready (monitorStatus_tick ?w)"
    by (simp_all add: monitorStatus_tick_def Let_def)
  from ready_transition_clears_cache [of "newSession 7 0" ?s' ?w] reach step before after w
  show ?thesis by blast
qed

section \<open>Properties of the session registry\<close>

lemma initializeDatabase_ok:
  assumes "store_available m"
  shows "\<exists>db. fst (initializeDatabase m u) = Inr db
    \<and> opened (snd (initializeDatabase m u)) = Suc (opened m)
    \<and> allocated (snd (initializeDatabase m u)) = allocated m
    \<and> userSessions (snd (initializeDatabase m u)) = userSessions m
    \<and> objects (snd (initializeDatabase m u)) = objects m
    \<and> whatsapp_sessions (snd (initializeDatabase m u)) = whatsapp_sessions m
    \<and> database_fails (snd (initializeDatabase m u)) = database_fails m"
  using assms by (auto simp add: initializeDatabase_def store_available_def Let_def)

lemma initializeDatabase_fails:
  assumes "\<not> store_available m"
  shows "\<exists>e. fst (initializeDatabase m u) = Inl e
    \<and> allocated (snd (initializeDatabase m u)) = allocated m
    \<and> userSessions (snd (initializeDatabase m u)) = userSessions m
    \<and> objects (snd (initializeDatabase m u)) = objects m
    \<and> files (snd (initializeDatabase m u)) = files m
    \<and> whatsapp_sessions (snd (initializeDatabase m u)) = whatsapp_sessions m"
  using assms by (auto simp add: initializeDatabase_def store_available_def Let_def)

lemma createNewSession_ok:
  assumes "userSessions m u = None" and "store_available m"
  shows "fst (createNewSession m u t) = Inr (allocated m)
    \<and> userSessions (snd (createNewSession m u t)) = (userSessions m)(u \<mapsto> allocated m)
    \<and> (\<exists>db. objects (snd (createNewSession m u t))
          = (objects m)(allocated m \<mapsto> (newSession u t)\<lparr>SessionDB := Some db\<rparr>))
    \<and> allocated (snd (createNewSession m u t)) = Suc (allocated m)
    \<and> opened (snd (createNewSession m u t)) = Suc (opened m)
    \<and> whatsapp_sessions (snd (createNewSession m u t)) =
        (if database_fails m then whatsapp_sessions m
         else (whatsapp_sessions m)(u \<mapsto> \<lparr>RowStatus = ''disconnected'',
                RowDeviceID = ''user_'' @ decimal u, RowLastActivity = t\<rparr>))"
proof -
  let ?m1 = "m\<lparr>allocated := Suc (allocated m)\<rparr>"
  have av: "store_available ?m1" using assms(2) by (simp add: store_available_def)
  from initializeDatabase_ok [OF av, of u] obtain db where
    db: "fst (initializeDatabase ?m1 u) = Inr db"
    and rest: "opened (snd (initializeDatabase ?m1 u)) = Suc (opened m)"
      "allocated (snd (initializeDatabase ?m1 u)) = Suc (allocated m)"
      "userSessions (snd (initializeDatabase ?m1 u)) = userSessions m"
      "objects (snd (initializeDatabase ?m1 u)) = objects m"
      "whatsapp_sessions (snd (initializeDatabase ?m1 u)) = whatsapp_sessions m"
      "database_fails (snd (initializeDatabase ?m1 u)) = database_fails m"
    by auto
  obtain m2 where m2: "initializeDatabase ?m1 u = (Inr db, m2)"
    using db by (cases "initializeDatabase ?m1 u") auto
  with rest have r2: "opened m2 = Suc (opened m)" "allocated m2 = Suc (allocated m)"
    "userSessions m2 = userSessions m" "objects m2 = objects m"
    "whatsapp_sessions m2 = whatsapp_sessions m" "database_fails m2 = database_fails m"
    by simp_all
  show ?thesis
    using assms(1) m2 r2
    by (auto simp add: createNewSession_def Let_def saveOrUpdateSessionInDatabase_def
        statusWrite_def newSession_def)
qed

lemma createNewSession_fails:
  assumes "userSessions m u = None" and "\<not> store_available m"
  shows "(\<exists>e. fst (createNewSession m u t) = Inl e)
    \<and> userSessions (snd (createNewSession m u t)) = userSessions m
    \<and> objects (snd (createNewSession m u t)) = objects m
    \<and> files (snd (createNewSession m u t)) = files m
    \<and> whatsapp_sessions (snd (createNewSession m u t)) = whatsapp_sessions m
    \<and> allocated (snd (createNewSession m u t)) = Suc (allocated m)"
proof -
  let ?m1 = "m\<lparr>allocated := Suc (allocated m)\<rparr>"
  have av: "\<not> store_available ?m1" using assms(2) by (simp add: store_available_def)
  from initializeDatabase_fails [OF av, of u] obtain e where
    e: "fst (initializeDatabase ?m1 u) = Inl e"
    and rest: "allocated (snd (initializeDatabase ?m1 u)) = Suc (allocated m)"
      "userSessions (snd (initializeDatabase ?m1 u)) = userSessions m"
      "objects (snd (initializeDatabase ?m1 u)) = objects m"
      "files (snd (initializeDatabase ?m1 u)) = files m"
      "whatsapp_sessions (snd (initializeDatabase ?m1 u)) = whatsapp_sessions m"
    by auto
  obtain m2 where m2: "initializeDatabase ?m1 u = (Inl e, m2)"
    using e by (cases "initializeDatabase ?m1 u") auto
  with rest show ?thesis using assms(1)
    by (auto simp add: createNewSession_def Let_def)
qed

lemma GetOrCreateSession_new:
  "userSessions m u = None \<Longrightarrow> GetOrCreateSession m u t = createNewSession m u t"
  by (simp add: GetOrCreateSession_def)

lemma GetOrCreateSession_existing:
  "userSessions m u = Some ref \<Longrightarrow> GetOrCreateSession m u t = (Inr ref, m)"
  by (simp add: GetOrCreateSession_def)

lemma createNewSession_env:
  "WA_STORE_DRIVER (snd (createNewSession m u t)) = WA_STORE_DRIVER m
   \<and> WA_STORE_DSN (snd (createNewSession m u t)) = WA_STORE_DSN m
   \<and> sqlstore_fails (snd (createNewSession m u t)) = sqlstore_fails m"
  by (auto simp add: createNewSession_def initializeDatabase_def saveOrUpdateSessionInDatabase_def
      Let_def split: option.splits prod.splits sum.splits)

lemma createNewSession_existing:
  "userSessions m u = Some ref \<Longrightarrow> createNewSession m u t = (Inr ref, m)"
  by (simp add: createNewSession_def)

lemma store_available_cong:
  assumes "WA_STORE_DRIVER m = WA_STORE_DRIVER m0" "WA_STORE_DSN m = WA_STORE_DSN m0"
    "sqlstore_fails m = sqlstore_fails m0"
  shows "store_available m = store_available m0"
  using assms by (simp add: store_available_def)

lemma in_update: "c \<in> set (cs[i := x]) \<Longrightarrow> c = x \<or> c \<in> set cs"
  using set_update_subset_insert [of cs i x] by auto

lemma caller_step_inv:
  assumes inv: "callers_inv m0 u m cs" and i: "i < length cs"
  shows "callers_inv m0 u (fst (caller_step m t (cs ! i))) (cs[i := snd (caller_step m t (cs ! i))])"
proof -
  let ?c = "cs ! i"
  from inv i have fu: "fst ?c = u" by (simp add: callers_inv_def)
  from inv have env: "WA_STORE_DRIVER m = WA_STORE_DRIVER m0" "WA_STORE_DSN m = WA_STORE_DSN m0"
    "sqlstore_fails m = sqlstore_fails m0" by (simp_all add: callers_inv_def)
  note av = store_available_cong [OF env]
  from i have mem: "?c \<in> set cs" by simp
  show ?thesis
  proof (cases "snd ?c")
    case Calling
    show ?thesis
    proof (cases "userSessions m u")
      case None
      with Calling fu have st: "caller_step m t ?c = (m, (u, Creating))"
        by (simp add: caller_step_def)
      from inv None show ?thesis
        unfolding st callers_inv_def by (auto split: if_splits dest!: in_update)
    next
      case (Some ref)
      with Calling fu have st: "caller_step m t ?c = (m, (u, Done (Inr ref)))"
        by (simp add: caller_step_def)
      from inv Some show ?thesis
        unfolding st callers_inv_def by (auto split: if_splits dest!: in_update)
    qed
  next
    case Creating
    then have st: "caller_step m t ?c
        = (snd (createNewSession m u t), (u, Done (fst (createNewSession m u t))))"
      using fu by (simp add: caller_step_def Let_def)
    show ?thesis
    proof (cases "userSessions m u")
      case (Some ref)
      from createNewSession_existing [OF Some, of t]
      have st': "caller_step m t ?c = (m, (u, Done (Inr ref)))" using st by simp
      from inv Some show ?thesis
        unfolding st' callers_inv_def by (auto split: if_splits dest!: in_update)
    next
      case None
      show ?thesis
      proof (cases "store_available m0")
        case True
        with av have "store_available m" by simp
        note ok = createNewSession_ok [OF None this, of t]
        from inv None True have base: "allocated m = allocated m0" "opened m = opened m0"
          "\<forall>c\<in>set cs. \<forall>r. snd c \<noteq> Done r"
          by (auto simp add: callers_inv_def)
        from inv have all_u: "\<forall>c\<in>set cs. fst c = u" by (simp add: callers_inv_def)
        have "callers_inv m0 u (snd (createNewSession m u t))
            (cs[i := (u, Done (fst (createNewSession m u t)))])"
          unfolding callers_inv_def
          using ok base all_u True env createNewSession_env [of m u t]
          by (auto dest!: in_update)
        then show ?thesis unfolding st by simp
      next
        case False
        with av have "\<not> store_available m" by simp
        note bad = createNewSession_fails [OF None this, of t]
        from inv False have base: "\<forall>c\<in>set cs. \<forall>r. snd c = Done r \<longrightarrow> (\<exists>e. r = Inl e)"
          by (auto simp add: callers_inv_def)
        from inv have all_u: "\<forall>c\<in>set cs. fst c = u" by (simp add: callers_inv_def)
        from bad obtain e where e: "fst (createNewSession m u t) = Inl e" by blast
        from bad have keep: "userSessions (snd (createNewSession m u t)) = userSessions m"
          by blast
        have "callers_inv m0 u (snd (createNewSession m u t))
            (cs[i := (u, Done (fst (createNewSession m u t)))])"
          unfolding callers_inv_def e
          using keep base all_u False env None createNewSession_env [of m u t]
          by (auto dest!: in_update)
        then show ?thesis unfolding st by simp
      qed
    qed
  next
    case (Done r)
    then have st: "caller_step m t ?c = (m, ?c)" by (simp add: caller_step_def)
    from inv i show ?thesis unfolding st by simp
  qed
qed

lemma run_callers_inv:
  assumes "callers_inv m0 u m cs"
  shows "callers_inv m0 u (fst (run_callers m cs sched)) (snd (run_callers m cs sched))"
  using assms
proof (induction sched arbitrary: m cs)
  case Nil
  then show ?case by simp
next
  case (Cons a sched)
  obtain i t where a: "a = (i, t)" by (cases a)
  show ?case
  proof (cases "i < length cs")
    case True
    from caller_step_inv [OF Cons.prems True, of t]
    have "callers_inv m0 u (fst (caller_step m t (cs ! i))) (cs[i := snd (caller_step m t (cs ! i))])" .
    from Cons.IH [OF this] True a show ?thesis by (simp add: Let_def)
  next
    case False
    with Cons.IH [OF Cons.prems] a show ?thesis by simp
  qed
qed

lemma callers_inv_start:
  assumes "userSessions m u = None" and "\<forall>c\<in>set cs. c = (u, Calling)"
  shows "callers_inv m u m cs"
  using assms by (auto simp add: callers_inv_def)

lemma caller_step_progress:
  "steps_left (snd (snd (caller_step m t c))) \<le> steps_left (snd c) - 1"
  by (cases "snd c") (auto simp add: caller_step_def Let_def split: option.splits)

lemma run_callers_length: "length (snd (run_callers m cs sched)) = length cs"
  by (induction sched arbitrary: m cs) (auto simp add: Let_def)

lemma run_callers_progress:
  assumes "i < length cs" and "steps_left (snd (cs ! i)) \<le> count_list (map fst sched) i"
  shows "steps_left (snd (snd (run_callers m cs sched) ! i)) = 0"
  using assms
proof (induction sched arbitrary: m cs)
  case Nil
  then show ?case by simp
next
  case (Cons a sched)
  obtain j t where a: "a = (j, t)" by (cases a)
  show ?case
  proof (cases "j < length cs")
    case False
    with Cons.prems(1) have "j \<noteq> i" by auto
    with Cons.prems a have "steps_left (snd (cs ! i)) \<le> count_list (map fst sched) i" by simp
    from Cons.IH [OF Cons.prems(1) this] False a show ?thesis by simp
  next
    case True
    let ?r = "caller_step m t (cs ! j)"
    let ?cs = "cs[j := snd ?r]"
    have len: "i < length ?cs" using Cons.prems(1) by simp
    have "steps_left (snd (?cs ! i)) \<le> count_list (map fst sched) i"
    proof (cases "j = i")
      case True
      with Cons.prems a caller_step_progress [of m t "cs ! i"] show ?thesis by simp
    next
      case False
      with Cons.prems a show ?thesis by simp
    qed
    from Cons.IH [OF len this] True a show ?thesis by (simp add: Let_def)
  qed
qed

lemma steps_left_zero: "steps_left p = 0 \<Longrightarrow> \<exists>r. p = Done r"
  by (cases p) simp_all

lemma run_single_caller:
  "run_callers m [(u, Calling)] [(0, t), (0, t)]
     = (snd (GetOrCreateSession m u t), [(u, Done (fst (GetOrCreateSession m u t)))])"
  by (cases "userSessions m u")
     (simp_all add: caller_step_def GetOrCreateSession_def Let_def)

text \<open>
  Claim C2, as amended. \<open>GetOrCreateSession\<close> for a user already in the registry returns
  the existing reference and leaves the manager as it is. The function is the run of one
  caller through its two locked regions. For every schedule of callers of one unseen
  user: a caller scheduled twice has returned; whoever returned a session holds the
  reference the registry holds; when the credential store can be set up, at most one
  object is constructed and at most one store opened, and every caller that returned
  holds the one object, constructed and stored once; when the store cannot be set up,
  nothing is stored and every caller that returned holds an error.
\<close>

theorem GetOrCreateSession_single_object:
  "(userSessions m u = Some ref \<longrightarrow> GetOrCreateSession m u t = (Inr ref, m))
   \<and> run_callers m [(u, Calling)] [(0, t), (0, t)]
       = (snd (GetOrCreateSession m u t), [(u, Done (fst (GetOrCreateSession m u t)))])
   \<and> (userSessions m u = None \<and> (\<forall>c\<in>set cs. c = (u, Calling)) \<longrightarrow>
        length (snd (run_callers m cs sched)) = length cs
        \<and> (\<forall>i<length cs. 2 \<le> count_list (map fst sched) i \<longrightarrow>
              (\<exists>r. snd (snd (run_callers m cs sched) ! i) = Done r))
        \<and> (\<forall>c\<in>set (snd (run_callers m cs sched)). \<forall>ref. snd c = Done (Inr ref) \<longrightarrow>
              userSessions (fst (run_callers m cs sched)) u = Some ref)
        \<and> (store_available m \<longrightarrow>
              (\<forall>c\<in>set (snd (run_callers m cs sched)). \<forall>r. snd c = Done r \<longrightarrow>
                  r = Inr (allocated m)
                  \<and> userSessions (fst (run_callers m cs sched)) u = Some (allocated m)
                  \<and> allocated (fst (run_callers m cs sched)) = Suc (allocated m)
                  \<and> opened (fst (run_callers m cs sched)) = Suc (opened m))
              \<and> allocated (fst (run_callers m cs sched)) \<le> Suc (allocated m)
              \<and> opened (fst (run_callers m cs sched)) \<le> Suc (opened m))
        \<and> (\<not> store_available m \<longrightarrow>
              userSessions (fst (run_callers m cs sched)) u = None
              \<and> (\<forall>c\<in>set (snd (run_callers m cs sched)). \<forall>r. snd c = Done r \<longrightarrow>
                    (\<exists>e. r = Inl e))))"
proof (intro conjI impI; (elim conjE)?)
  assume "userSessions m u = Some ref"
  then show "GetOrCreateSession m u t = (Inr ref, m)" by (rule GetOrCreateSession_existing)
next
  show "run_callers m [(u, Calling)] [(0, t), (0, t)]
       = (snd (GetOrCreateSession m u t), [(u, Done (fst (GetOrCreateSession m u t)))])"
    by (rule run_single_caller)
next
  show "length (snd (run_callers m cs sched)) = length cs" by (rule run_callers_length)
next
  assume start: "userSessions m u = None" "\<forall>c\<in>set cs. c = (u, Calling)"
  show "\<forall>i<length cs. 2 \<le> count_list (map fst sched) i \<longrightarrow>
              (\<exists>r. snd (snd (run_callers m cs sched) ! i) = Done r)"
  proof (intro allI impI)
    fix i assume i: "i < length cs" and n: "2 \<le> count_list (map fst sched) i"
    from start(2) i have "cs ! i = (u, Calling)" by simp
    with n have "steps_left (snd (cs ! i)) \<le> count_list (map fst sched) i" by simp
    from run_callers_progress [OF i this, of m]
    show "\<exists>r. snd (snd (run_callers m cs sched) ! i) = Done r" by (rule steps_left_zero)
  qed
next
  assume start: "userSessions m u = None" "\<forall>c\<in>set cs. c = (u, Calling)"
  from run_callers_inv [OF callers_inv_start [OF start], of sched]
  show "\<forall>c\<in>set (snd (run_callers m cs sched)). \<forall>ref. snd c = Done (Inr ref) \<longrightarrow>
              userSessions (fst (run_callers m cs sched)) u = Some ref"
    unfolding callers_inv_def by (auto split: if_splits)
next
  assume start: "userSessions m u = None" "\<forall>c\<in>set cs. c = (u, Calling)"
    and av: "store_available m"
  note inv = run_callers_inv [OF callers_inv_start [OF start], of sched]
  from inv av
  show "\<forall>c\<in>set (snd (run_callers m cs sched)). \<forall>r. snd c = Done r \<longrightarrow>
                  r = Inr (allocated m)
                  \<and> userSessions (fst (run_callers m cs sched)) u = Some (allocated m)
                  \<and> allocated (fst (run_callers m cs sched)) = Suc (allocated m)
                  \<and> opened (fst (run_callers m cs sched)) = Suc (opened m)"
    unfolding callers_inv_def by auto
  from inv av show "allocated (fst (run_callers m cs sched)) \<le> Suc (allocated m)"
    unfolding callers_inv_def by auto
  from inv av show "opened (fst (run_callers m cs sched)) \<le> Suc (opened m)"
    unfolding callers_inv_def by auto
next
  assume start: "userSessions m u = None" "\<forall>c\<in>set cs. c = (u, Calling)"
    and nav: "\<not> store_available m"
  note inv = run_callers_inv [OF callers_inv_start [OF start], of sched]
  from inv nav show "userSessions (fst (run_callers m cs sched)) u = None"
    unfolding callers_inv_def by auto
  from inv nav show "\<forall>c\<in>set (snd (run_callers m cs sched)). \<forall>r. snd c = Done r \<longrightarrow>
                    (\<exists>e. r = Inl e)"
    unfolding callers_inv_def by auto
qed

text \<open>
  The claim as stated fails where the store cannot be set up: with \<open>WA_STORE_DRIVER\<close>
  \<open>postgres\<close> and no \<open>WA_STORE_DSN\<close>, two concurrent callers each construct an object,
  both get the error, and no object is stored.
\<close>

theorem two_callers_without_store:
  "userSessions (NewMultiUserWhatsAppManager ''postgres'' []) 7 = None
   \<and> snd (run_callers (NewMultiUserWhatsAppManager ''postgres'' [])
        [(7, Calling), (7, Calling)] [(0, 0), (1, 0), (0, 1), (1, 2)])
      = [(7, Done (Inl DSNRequired)), (7, Done (Inl DSNRequired))]
   \<and> allocated (fst (run_callers (NewMultiUserWhatsAppManager ''postgres'' [])
        [(7, Calling), (7, Calling)] [(0, 0), (1, 0), (0, 1), (1, 2)])) = 2
   \<and> opened (fst (run_callers (NewMultiUserWhatsAppManager ''postgres'' [])
        [(7, Calling), (7, Calling)] [(0, 0), (1, 0), (0, 1), (1, 2)])) = 0
   \<and> userSessions (fst (run_callers (NewMultiUserWhatsAppManager ''postgres'' [])
        [(7, Calling), (7, Calling)] [(0, 0), (1, 0), (0, 1), (1, 2)])) 7 = None"
  by (simp add: caller_step_def createNewSession_def initializeDatabase_def
      NewMultiUserWhatsAppManager_def Let_def)

theorem GetOrCreateSession_single_object_witness:
  "userSessions (NewMultiUserWhatsAppManager [] []) 7 = None
   \<and> store_available (NewMultiUserWhatsAppManager [] [])
   \<and> snd (snd (run_callers (NewMultiUserWhatsAppManager [] [])
        [(7, Calling), (7, Calling)] [(0, 0), (1, 0), (0, 1), (1, 2)]) ! 0) = Done (Inr 0)
   \<and> snd (snd (run_callers (NewMultiUserWhatsAppManager [] [])
        [(7, Calling), (7, Calling)] [(0, 0), (1, 0), (0, 1), (1, 2)]) ! 1) = Done (Inr 0)
   \<and> userSessions (fst (run_callers (NewMultiUserWhatsAppManager [] [])
        [(7, Calling), (7, Calling)] [(0, 0), (1, 0), (0, 1), (1, 2)])) 7 = Some 0
   \<and> allocated (fst (run_callers (NewMultiUserWhatsAppManager [] [])
        [(7, Calling), (7, Calling)] [(0, 0), (1, 0), (0, 1), (1, 2)])) = 1
   \<and> opened (fst (run_callers (NewMultiUserWhatsAppManager [] [])
        [(7, Calling), (7, Calling)] [(0, 0), (1, 0), (0, 1), (1, 2)])) = 1"
proof -
  let ?m = "NewMultiUserWhatsAppManager [] []"
  let ?cs = "[(7, Calling), (7, Calling)] :: (nat \<times> call_state) list"
  let ?sched = "[(0, 0), (1, 0), (0, 1), (1, 2)] :: (nat \<times> time) list"
  let ?R = "run_callers ?m ?cs ?sched"
  have un: "userSessions ?m 7 = None" by (simp add: NewMultiUserWhatsAppManager_def)
  have av: "store_available ?m" by (simp add: NewMultiUserWhatsAppManager_def store_available_def)
  have al: "allocated ?m = 0" "opened ?m = 0" by (simp_all add: NewMultiUserWhatsAppManager_def)
  have cs: "\<forall>c\<in>set ?cs. c = (7, Calling)" by simp
  note T = GetOrCreateSession_single_object [of ?m 7 _ _ ?cs ?sched]
  from T un cs have len: "length (snd ?R) = 2" by simp
  from T un cs have prog: "\<forall>i<length ?cs. 2 \<le> count_list (map fst ?sched) i \<longrightarrow>
      (\<exists>r. snd (snd ?R ! i) = Done r)" by blast
  from prog obtain r0 where r0: "snd (snd ?R ! 0) = Done r0" by force
  from prog obtain r1 where r1: "snd (snd ?R ! 1) = Done r1" by force
  from len have mem: "snd ?R ! 0 \<in> set (snd ?R)" "snd ?R ! 1 \<in> set (snd ?R)" by simp_all
  from T un cs av have all: "\<forall>c\<in>set (snd ?R). \<forall>r. snd c = Done r \<longrightarrow>
      r = Inr (allocated ?m) \<and> userSessions (fst ?R) 7 = Some (allocated ?m)
      \<and> allocated (fst ?R) = Suc (allocated ?m) \<and> opened (fst ?R) = Suc (opened ?m)"
    by blast
  from all mem(1) r0 have a0: "r0 = Inr 0" "userSessions (fst ?R) 7 = Some 0"
    "allocated (fst ?R) = 1" "opened (fst ?R) = 1" using al by auto
  from all mem(2) r1 have a1: "r1 = Inr 0" using al by auto
  from un av r0 r1 a0 a1 show ?thesis by simp
qed

lemma queries_after_create:
  assumes "fst (GetOrCreateSession m u t) = Inr ref"
    and "objects (snd (GetOrCreateSession m u t)) ref = Some s"
  shows "GetStatus m u t = (Inr (Status s), snd (GetOrCreateSession m u t))"
    and "IsReady m u t = (Ready s, snd (GetOrCreateSession m u t))"
    and "GetClient m u t = (Client s, snd (GetOrCreateSession m u t))"
    and "GetQRCode m u t =
      (\<lparr>qr_result = Inr (QRCode s),
        connect_started = (QRCode s = [] \<and> Status s \<noteq> ''connected'' \<and> Status s \<noteq> ''scanning''
           \<and> Status s \<noteq> ''connecting'')\<rparr>, snd (GetOrCreateSession m u t))"
  using assms
  by (cases "GetOrCreateSession m u t";
      simp add: GetStatus_def IsReady_def GetClient_def GetQRCode_def Let_def)+

lemma queries_after_failure:
  assumes "fst (GetOrCreateSession m u t) = Inl e"
  shows "GetStatus m u t = (Inl e, snd (GetOrCreateSession m u t))"
    and "IsReady m u t = (False, snd (GetOrCreateSession m u t))"
    and "GetClient m u t = (None, snd (GetOrCreateSession m u t))"
    and "GetQRCode m u t =
      (\<lparr>qr_result = Inl e, connect_started = False\<rparr>, snd (GetOrCreateSession m u t))"
  using assms
  by (cases "GetOrCreateSession m u t";
      simp add: GetStatus_def IsReady_def GetClient_def GetQRCode_def)+

text \<open>
  Claim C9, as amended. For a user without an entry in the registry, each of \<open>GetStatus\<close>,
  \<open>IsReady\<close>, \<open>GetClient\<close> and \<open>GetQRCode\<close> changes the manager in the same way. When
  the credential store can be set up (\<open>sqlstore.New\<close> succeeds and, for the postgres
  drivers, \<open>WA_STORE_DSN\<close> is set), a new session with status \<open>disconnected\<close> is
  constructed, its store is opened, it is entered in the registry, and its status row is
  written if the main database accepts the write; the queries answer \<open>disconnected\<close>,
  not ready, no client and an empty pairing code, and \<open>GetQRCode\<close> starts a connect.
  When the store cannot be set up, the queries answer with the error (false, nil) and
  registry, objects, files and status rows are unchanged.
\<close>

theorem queries_create_session:
  assumes "userSessions m userID = None"
  shows "(store_available m \<longrightarrow>
      fst (GetStatus m userID t) = Inr ''disconnected''
      \<and> fst (IsReady m userID t) = False
      \<and> fst (GetClient m userID t) = None
      \<and> fst (GetQRCode m userID t) = \<lparr>qr_result = Inr [], connect_started = True\<rparr>
      \<and> snd (IsReady m userID t) = snd (GetStatus m userID t)
      \<and> snd (GetClient m userID t) = snd (GetStatus m userID t)
      \<and> snd (GetQRCode m userID t) = snd (GetStatus m userID t)
      \<and> userSessions (snd (GetStatus m userID t)) = (userSessions m)(userID \<mapsto> allocated m)
      \<and> (\<exists>db. objects (snd (GetStatus m userID t))
            = (objects m)(allocated m \<mapsto> (newSession userID t)\<lparr>SessionDB := Some db\<rparr>))
      \<and> allocated (snd (GetStatus m userID t)) = Suc (allocated m)
      \<and> opened (snd (GetStatus m userID t)) = Suc (opened m)
      \<and> whatsapp_sessions (snd (GetStatus m userID t)) =
          (if database_fails m then whatsapp_sessions m
           else (whatsapp_sessions m)(userID \<mapsto> \<lparr>RowStatus = ''disconnected'',
                  RowDeviceID = ''user_'' @ decimal userID, RowLastActivity = t\<rparr>)))
   \<and> (\<not> store_available m \<longrightarrow>
      (\<exists>e. fst (GetStatus m userID t) = Inl e
           \<and> fst (GetQRCode m userID t) = \<lparr>qr_result = Inl e, connect_started = False\<rparr>)
      \<and> fst (IsReady m userID t) = False
      \<and> fst (GetClient m userID t) = None
      \<and> snd (IsReady m userID t) = snd (GetStatus m userID t)
      \<and> snd (GetClient m userID t) = snd (GetStatus m userID t)
      \<and> snd (GetQRCode m userID t) = snd (GetStatus m userID t)
      \<and> userSessions (snd (GetStatus m userID t)) = userSessions m
      \<and> objects (snd (GetStatus m userID t)) = objects m
      \<and> files (snd (GetStatus m userID t)) = files m
      \<and> whatsapp_sessions (snd (GetStatus m userID t)) = whatsapp_sessions m)"
proof (intro conjI impI)
  assume av: "store_available m"
  note c = createNewSession_ok [OF assms av, of t]
  note g = GetOrCreateSession_new [OF assms, of t]
  from c obtain db where db: "objects (snd (createNewSession m userID t))
      = (objects m)(allocated m \<mapsto> (newSession userID t)\<lparr>SessionDB := Some db\<rparr>)" by blast
  let ?s = "(newSession userID t)\<lparr>SessionDB := Some db\<rparr>"
  have f: "fst (GetOrCreateSession m userID t) = Inr (allocated m)" using c g by simp
  have o: "objects (snd (GetOrCreateSession m userID t)) (allocated m) = Some ?s"
    using db g by simp
  note q = queries_after_create [OF f o]
  have s: "Status ?s = ''disconnected''" "Ready ?s = False" "Client ?s = None" "QRCode ?s = []"
    by (simp_all add: newSession_def)
  show "fst (GetStatus m userID t) = Inr ''disconnected''" using q(1) s by simp
  show "fst (IsReady m userID t) = False" using q(2) s by simp
  show "fst (GetClient m userID t) = None" using q(3) s by simp
  show "fst (GetQRCode m userID t) = \<lparr>qr_result = Inr [], connect_started = True\<rparr>"
    using q(4) s by simp
  show "snd (IsReady m userID t) = snd (GetStatus m userID t)" using q by simp
  show "snd (GetClient m userID t) = snd (GetStatus m userID t)" using q by simp
  show "snd (GetQRCode m userID t) = snd (GetStatus m userID t)" using q by simp
  have m': "snd (GetStatus m userID t) = snd (createNewSession m userID t)" using q(1) g by simp
  show "userSessions (snd (GetStatus m userID t)) = (userSessions m)(userID \<mapsto> allocated m)"
    using c m' by simp
  show "\<exists>db. objects (snd (GetStatus m userID t))
            = (objects m)(allocated m \<mapsto> (newSession userID t)\<lparr>SessionDB := Some db\<rparr>)"
    using c m' by simp
  show "allocated (snd (GetStatus m userID t)) = Suc (allocated m)" using c m' by simp
  show "opened (snd (GetStatus m userID t)) = Suc (opened m)" using c m' by simp
  show "whatsapp_sessions (snd (GetStatus m userID t)) =
          (if database_fails m then whatsapp_sessions m
           else (whatsapp_sessions m)(userID \<mapsto> \<lparr>RowStatus = ''disconnected'',
                  RowDeviceID = ''user_'' @ decimal userID, RowLastActivity = t\<rparr>))"
    using c m' by simp
next
  assume nav: "\<not> store_available m"
  note c = createNewSession_fails [OF assms nav, of t]
  note g = GetOrCreateSession_new [OF assms, of t]
  from c obtain e where e: "fst (GetOrCreateSession m userID t) = Inl e" using g by auto
  note q = queries_after_failure [OF e]
  show "\<exists>e. fst (GetStatus m userID t) = Inl e
           \<and> fst (GetQRCode m userID t) = \<lparr>qr_result = Inl e, connect_started = False\<rparr>"
    using q by simp
  show "fst (IsReady m userID t) = False" using q by simp
  show "fst (GetClient m userID t) = None" using q by simp
  show "snd (IsReady m userID t) = snd (GetStatus m userID t)" using q by simp
  show "snd (GetClient m userID t) = snd (GetStatus m userID t)" using q by simp
  show "snd (GetQRCode m userID t) = snd (GetStatus m userID t)" using q by simp
  have m': "snd (GetStatus m userID t) = snd (createNewSession m userID t)" using q(1) g by simp
  show "userSessions (snd (GetStatus m userID t)) = userSessions m" using c m' by simp
  show "objects (snd (GetStatus m userID t)) = objects m" using c m' by simp
  show "files (snd (GetStatus m userID t)) = files m" using c m' by simp
  show "whatsapp_sessions (snd (GetStatus m userID t)) = whatsapp_sessions m" using c m' by simp
qed

text \<open>
  The claim as stated fails where the store cannot be set up: with \<open>WA_STORE_DRIVER\<close>
  \<open>postgres\<close> and no \<open>WA_STORE_DSN\<close>, the four queries on an unseen user return the
  error, false or nil, and nothing is registered, opened or persisted.
\<close>

theorem queries_fail_without_store:
  "userSessions (NewMultiUserWhatsAppManager ''postgres'' []) 7 = None
   \<and> fst (GetStatus (NewMultiUserWhatsAppManager ''postgres'' []) 7 0) = Inl DSNRequired
   \<and> fst (IsReady (NewMultiUserWhatsAppManager ''postgres'' []) 7 0) = False
   \<and> fst (GetClient (NewMultiUserWhatsAppManager ''postgres'' []) 7 0) = None
   \<and> qr_result (fst (GetQRCode (NewMultiUserWhatsAppManager ''postgres'' []) 7 0)) = Inl DSNRequired
   \<and> userSessions (snd (GetStatus (NewMultiUserWhatsAppManager ''postgres'' []) 7 0)) 7 = None
   \<and> userSessions (snd (IsReady (NewMultiUserWhatsAppManager ''postgres'' []) 7 0)) 7 = None
   \<and> userSessions (snd (GetClient (NewMultiUserWhatsAppManager ''postgres'' []) 7 0)) 7 = None
   \<and> userSessions (snd (GetQRCode (NewMultiUserWhatsAppManager ''postgres'' []) 7 0)) 7 = None
   \<and> objects (snd (GetStatus (NewMultiUserWhatsAppManager ''postgres'' []) 7 0)) = Map.empty
   \<and> whatsapp_sessions (snd (GetStatus (NewMultiUserWhatsAppManager ''postgres'' []) 7 0)) = Map.empty
   \<and> opened (snd (GetStatus (NewMultiUserWhatsAppManager ''postgres'' []) 7 0)) = 0"
  by (simp add: GetStatus_def IsReady_def GetClient_def GetQRCode_def GetOrCreateSession_def
      createNewSession_def initializeDatabase_def NewMultiUserWhatsAppManager_def Let_def)

theorem queries_create_session_witness:
  "userSessions (NewMultiUserWhatsAppManager [] []) 7 = None
   \<and> store_available (NewMultiUserWhatsAppManager [] [])
   \<and> fst (GetStatus (NewMultiUserWhatsAppManager [] []) 7 0) = Inr ''disconnected''
   \<and> userSessions (snd (GetStatus (NewMultiUserWhatsAppManager [] []) 7 0)) 7 = Some 0
   \<and> opened (snd (GetStatus (NewMultiUserWhatsAppManager [] []) 7 0)) = 1
   \<and> whatsapp_sessions (snd (GetStatus (NewMultiUserWhatsAppManager [] []) 7 0)) 7
       = Some \<lparr>RowStatus = ''disconnected'', RowDeviceID = ''user_'' @ decimal 7,
               RowLastActivity = 0\<rparr>
   \<and> fst (GetQRCode (NewMultiUserWhatsAppManager [] []) 7 0)
       = \<lparr>qr_result = Inr [], connect_started = True\<rparr>"
proof -
  let ?m = "NewMultiUserWhatsAppManager [] []"
  have un: "userSessions ?m 7 = None" by (simp add: NewMultiUserWhatsAppManager_def)
  have av: "store_available ?m" by (simp add: NewMultiUserWhatsAppManager_def store_available_def)
  have m: "allocated ?m = 0" "opened ?m = 0" "\<not> database_fails ?m"
    "whatsapp_sessions ?m = Map.empty" "userSessions ?m = Map.empty"
    by (simp_all add: NewMultiUserWhatsAppManager_def)
  from queries_create_session [OF un, of 0] av m un show ?thesis by simp
qed





lemma registered_user_7_eq:
  "registered_user_7 =
     \<lparr>userSessions = [7 \<mapsto> 0],
      objects = [0 \<mapsto> (newSession 7 0)\<lparr>SessionDB := Some (SqliteContainer (storeFile 7))\<rparr>],
      allocated = 1, opened = 1,
      whatsapp_sessions = [7 \<mapsto> \<lparr>RowStatus = ''disconnected'',
          RowDeviceID = ''user_'' @ decimal 7, RowLastActivity = 0\<rparr>],
      files = {storeFile 7},
      WA_STORE_DRIVER = [], WA_STORE_DSN = [], sqlstore_fails = False, database_fails = False\<rparr>"
  by (simp add: registered_user_7_def GetOrCreateSession_def createNewSession_def
      initializeDatabase_def saveOrUpdateSessionInDatabase_def statusWrite_def
      NewMultiUserWhatsAppManager_def Let_def newSession_def)



lemma since_start: "\<not> Since (100 * Second) zeroTime < 5 * Second"
  by (simp add: Since_def zeroTime_def Second_def maxDuration_def minDuration_def Let_def)

lemma pairing_started:
  "snd (Connect registered_user_7 7 pairing_env) =
     registered_user_7\<lparr>objects := [0 \<mapsto> (newSession 7 0)\<lparr>
        SessionDB := Some (SqliteContainer (storeFile 7)),
        LastConnectAttempt := 100 * Second,
        Client := Some \<lparr>StoreID = None, IsConnected = True\<rparr>,
        Status := ''scanning'', LastActivity := 100 * Second\<rparr>]\<rparr>"
  using since_start
  by (simp add: Connect_def GetOrCreateSession_def registered_user_7_eq pairing_env_def
      connect_def connect_pairing_def Let_def newSession_def)

lemma logged_out_while_pairing_eq:
  "logged_out_while_pairing =
     \<lparr>userSessions = Map.empty,
      objects = [0 \<mapsto> \<lparr>UserID = 7, Client = Some \<lparr>StoreID = None, IsConnected = False\<rparr>,
         SessionDB = Some (SqliteContainer (storeFile 7)), QRCode = [], Ready = False,
         Status = ''disconnected'', LastActivity = 100 * Second,
         LastConnectAttempt = 100 * Second, AnalysisCache = Map.empty, Groups = []\<rparr>],
      allocated = 1, opened = 1, whatsapp_sessions = Map.empty, files = {},
      WA_STORE_DRIVER = [], WA_STORE_DSN = [], sqlstore_fails = False, database_fails = False\<rparr>"
  unfolding logged_out_while_pairing_def pairing_started
  by (simp add: registered_user_7_eq Logout_def Let_def logout_session_def logout_client_def
      ClearAnalysisCache_def newSession_def)

lemma saveOrUpdate_registry:
  "saveOrUpdateSessionInDatabase (m\<lparr>userSessions := reg\<rparr>) w
     = (fst (saveOrUpdateSessionInDatabase m w),
        (snd (saveOrUpdateSessionInDatabase m w))\<lparr>userSessions := reg\<rparr>)"
  by (simp add: saveOrUpdateSessionInDatabase_def)

lemma status_writes_registry:
  "foldl (\<lambda>m' w. snd (saveOrUpdateSessionInDatabase m' w)) (m\<lparr>userSessions := reg\<rparr>) ws
     = (foldl (\<lambda>m' w. snd (saveOrUpdateSessionInDatabase m' w)) m ws)\<lparr>userSessions := reg\<rparr>"
  by (induction ws arbitrary: m) (simp_all add: saveOrUpdate_registry)

lemma watcher_round_ignores_registry:
  "watcher_round (m\<lparr>userSessions := reg\<rparr>) ref encode t out
     = (watcher_round m ref encode t out)\<lparr>userSessions := reg\<rparr>"
proof (cases "objects m ref")
  case None
  then show ?thesis by (simp add: watcher_round_def)
next
  case (Some s)
  let ?r = "waitForQR_step encode t s out"
  let ?f = "\<lambda>m' w. snd (saveOrUpdateSessionInDatabase m' w)"
  have L: "watcher_round (m\<lparr>userSessions := reg\<rparr>) ref encode t out
      = foldl ?f ((m\<lparr>userSessions := reg\<rparr>)\<lparr>objects := (objects m)(ref \<mapsto> after ?r)\<rparr>) (wrote ?r)"
    using Some by (simp add: watcher_round_def Let_def)
  have R: "watcher_round m ref encode t out
      = foldl ?f (m\<lparr>objects := (objects m)(ref \<mapsto> after ?r)\<rparr>) (wrote ?r)"
    using Some by (simp add: watcher_round_def Let_def)
  have C: "(m\<lparr>userSessions := reg\<rparr>)\<lparr>objects := (objects m)(ref \<mapsto> after ?r)\<rparr>
      = (m\<lparr>objects := (objects m)(ref \<mapsto> after ?r)\<rparr>)\<lparr>userSessions := reg\<rparr>"
    by simp
  show ?thesis unfolding L R C by (rule status_writes_registry)
qed

text \<open>
  Claim C3, evaluated on the code. After \<open>Logout\<close> has removed the session of user 7
  from the registry, deleted its status row and reset the object, a round of the pairing
  watcher that was waiting on that object still acts: on the timer it writes a status row
  for the user again, on a \<open>success\<close> event it sets the object to \<open>connected\<close> and
  ready and writes a \<open>connected\<close> row, on a \<open>code\<close> event it stores a pairing code.
  \<open>waitForQR\<close> checks nothing before it writes: whatever the registry holds, a round
  of the watcher does the same to the object and to the status rows.
\<close>

theorem abandoned_watcher_writes_after_logout:
  "watcher_round (m\<lparr>userSessions := reg\<rparr>) ref encode t out
     = (watcher_round m ref encode t out)\<lparr>userSessions := reg\<rparr>
   \<and> userSessions logged_out_while_pairing 7 = None
   \<and> whatsapp_sessions logged_out_while_pairing 7 = None
   \<and> map_option Status (objects logged_out_while_pairing 0) = Some ''disconnected''
   \<and> map_option Ready (objects logged_out_while_pairing 0) = Some False
   \<and> map_option QRCode (objects logged_out_while_pairing 0) = Some []
   \<and> whatsapp_sessions (watcher_round logged_out_while_pairing 0 encode t TimerFired) 7
       = Some \<lparr>RowStatus = ''disconnected'', RowDeviceID = ''user_'' @ decimal 7,
               RowLastActivity = t\<rparr>
   \<and> map_option Status (objects (watcher_round logged_out_while_pairing 0 encode t
        (Received \<lparr>Event = ''success'', Code = c\<rparr>)) 0) = Some ''connected''
   \<and> map_option Ready (objects (watcher_round logged_out_while_pairing 0 encode t
        (Received \<lparr>Event = ''success'', Code = c\<rparr>)) 0) = Some True
   \<and> whatsapp_sessions (watcher_round logged_out_while_pairing 0 encode t
        (Received \<lparr>Event = ''success'', Code = c\<rparr>)) 7
       = Some \<lparr>RowStatus = ''connected'', RowDeviceID = ''user_'' @ decimal 7,
               RowLastActivity = t\<rparr>
   \<and> map_option QRCode (objects (watcher_round logged_out_while_pairing 0 (\<lambda>code. Some code) t
        (Received \<lparr>Event = ''code'', Code = ''2@abc''\<rparr>)) 0)
       = Some ''data:image/png;base64,2@abc''"
proof (rule conjI)
  show "watcher_round (m\<lparr>userSessions := reg\<rparr>) ref encode t out
     = (watcher_round m ref encode t out)\<lparr>userSessions := reg\<rparr>"
    by (rule watcher_round_ignores_registry)
qed (simp add: logged_out_while_pairing_eq watcher_round_def waitForQR_step_def Let_def
      saveOrUpdateSessionInDatabase_def statusWrite_def)

section \<open>Properties of the access gate\<close>

lemma filter_nonempty_iff: "(filter P xs \<noteq> []) = (\<exists>x. x \<in> set xs \<and> P x)"
  by (auto simp add: filter_empty_conv)

lemma first_query:
  "fst (CheckIfUserPaidForPhone ps u p)
     = (if query_fails ps 0 then Inl DatabaseError else Inr (paid_for (transactions ps) u p))"
  by (cases "query_errors ps")
     (auto simp add: CheckIfUserPaidForPhone_def next_query_def query_fails_def paid_for_def
        Let_def filter_nonempty_iff)

lemma first_query_state:
  "transactions (snd (CheckIfUserPaidForPhone ps u p)) = transactions ps
   \<and> query_fails (snd (CheckIfUserPaidForPhone ps u p)) 0 = query_fails ps 1"
  by (cases "query_errors ps")
     (auto simp add: CheckIfUserPaidForPhone_def next_query_def query_fails_def Let_def)

lemma second_query:
  "fst (CheckIfUserHasAnyPaidTransaction ps u)
     = (if query_fails ps 0 then Inl DatabaseError else Inr (paid_at_all (transactions ps) u))"
  by (cases "query_errors ps")
     (auto simp add: CheckIfUserHasAnyPaidTransaction_def next_query_def query_fails_def
        paid_at_all_def Let_def filter_nonempty_iff)

lemma gate_bound:
  assumes "phone \<noteq> []"
  shows "HandleAnalyze_gate (bound_to phone) (Some ps) userID =
     (if query_fails ps 0 then VerifyPaymentFailed
      else if paid_for (transactions ps) (int_of_uint userID) phone then PaymentVerified
      else if \<not> query_fails ps 1 \<and> paid_at_all (transactions ps) (int_of_uint userID)
           then PaymentRequired ''wrong_phone_number''
      else PaymentRequired ''no_payment'')"
proof -
  obtain r1 ps1 where q1: "CheckIfUserPaidForPhone ps (int_of_uint userID) phone = (r1, ps1)"
    by (cases "CheckIfUserPaidForPhone ps (int_of_uint userID) phone")
  obtain r2 ps2 where q2: "CheckIfUserHasAnyPaidTransaction ps1 (int_of_uint userID) = (r2, ps2)"
    by (cases "CheckIfUserHasAnyPaidTransaction ps1 (int_of_uint userID)")
  from first_query [of ps "int_of_uint userID" phone] q1
  have r1: "r1 = (if query_fails ps 0 then Inl DatabaseError
      else Inr (paid_for (transactions ps) (int_of_uint userID) phone))" by simp
  from first_query_state [of ps "int_of_uint userID" phone] q1
  have s1: "transactions ps1 = transactions ps" "query_fails ps1 0 = query_fails ps 1" by simp_all
  from second_query [of ps1 "int_of_uint userID"] q2 s1
  have r2: "r2 = (if query_fails ps 1 then Inl DatabaseError
      else Inr (paid_at_all (transactions ps) (int_of_uint userID)))" by simp
  show ?thesis
    using assms
    by (simp add: HandleAnalyze_gate_def bound_to_def Let_def q1 q2 r1 r2)
qed

lemma gate_unbound:
  "HandleAnalyze_gate None db userID = ClientNotAvailable"
  "HandleAnalyze_gate (Some \<lparr>StoreID = None, IsConnected = b\<rparr>) db userID = ClientNotAvailable"
  "HandleAnalyze_gate (bound_to []) db userID = PhoneNotExtracted"
  "phone \<noteq> [] \<Longrightarrow> HandleAnalyze_gate (bound_to phone) None userID = DatabaseNotInitialized"
  by (simp_all add: HandleAnalyze_gate_def bound_to_def)

text \<open>
  Claim C6, as amended. For a session bound to a phone number: when the first payment
  query fails the handler answers with a server error; otherwise analysis is allowed
  exactly when a paid transaction exists for the pair of user and bound number; otherwise
  the request is denied with status 402, as \<open>wrong_phone_number\<close> when the second query
  succeeds and the user has a paid transaction (for another number), and as \<open>no_payment\<close>
  when the user has none or the second query fails. So, with both queries answered, a
  user who paid for number A and not for B is allowed when bound to A and denied as
  \<open>wrong_phone_number\<close> when bound to B. Without a paired client the handler answers
  that the client is not available.
\<close>

theorem access_gate_decides:
  "(phone \<noteq> [] \<longrightarrow>
      HandleAnalyze_gate (bound_to phone) (Some ps) userID =
        (if query_fails ps 0 then VerifyPaymentFailed
         else if paid_for (transactions ps) (int_of_uint userID) phone then PaymentVerified
         else if \<not> query_fails ps 1 \<and> paid_at_all (transactions ps) (int_of_uint userID)
              then PaymentRequired ''wrong_phone_number''
         else PaymentRequired ''no_payment''))
   \<and> (phoneA \<noteq> [] \<and> phoneB \<noteq> [] \<and> \<not> query_fails ps 0 \<and> \<not> query_fails ps 1
       \<and> paid_for (transactions ps) (int_of_uint userID) phoneA
       \<and> \<not> paid_for (transactions ps) (int_of_uint userID) phoneB \<longrightarrow>
         HandleAnalyze_gate (bound_to phoneA) (Some ps) userID = PaymentVerified
         \<and> HandleAnalyze_gate (bound_to phoneB) (Some ps) userID
             = PaymentRequired ''wrong_phone_number'')
   \<and> (phone \<noteq> [] \<and> \<not> query_fails ps 0 \<and> \<not> query_fails ps 1
       \<and> \<not> paid_at_all (transactions ps) (int_of_uint userID) \<longrightarrow>
         HandleAnalyze_gate (bound_to phone) (Some ps) userID = PaymentRequired ''no_payment'')
   \<and> http_status (PaymentRequired ''wrong_phone_number'') = Some 402
   \<and> http_status (PaymentRequired ''no_payment'') = Some 402
   \<and> PaymentRequired ''wrong_phone_number'' \<noteq> PaymentRequired ''no_payment''
   \<and> HandleAnalyze_gate None db userID = ClientNotAvailable
   \<and> HandleAnalyze_gate (bound_to []) db userID = PhoneNotExtracted"
proof -
  have paid_any: "paid_at_all txs u" if "paid_for txs u p" for txs u p
    using that by (auto simp add: paid_for_def paid_at_all_def)
  have not_paid: "\<not> paid_for txs u p" if "\<not> paid_at_all txs u" for txs u p
    using that paid_any by blast
  show ?thesis
    using gate_bound [of phone ps userID] gate_bound [of phoneA ps userID]
      gate_bound [of phoneB ps userID] gate_unbound(1) [of db userID]
      gate_unbound(3) [of db userID]
      paid_any [of "transactions ps" "int_of_uint userID" phoneA]
      not_paid [of "transactions ps" "int_of_uint userID" phone]
    by (simp add: http_status_def)
qed

text \<open>
  The claim as stated fails where a query fails: a user who paid for another number is
  denied as \<open>no_payment\<close> when the second query fails, and a user who paid for the
  bound number is not let through when the first query fails.
\<close>

theorem gate_reports_no_payment_when_lookup_fails:
  "paid_for [\<lparr>TxUserID = 7, TxPhoneNumber = ''628111'', TxStatus = ''paid''\<rparr>] 7 ''628111''
   \<and> \<not> paid_for [\<lparr>TxUserID = 7, TxPhoneNumber = ''628111'', TxStatus = ''paid''\<rparr>] 7 ''628222''
   \<and> HandleAnalyze_gate (bound_to ''628222'')
        (Some \<lparr>transactions = [\<lparr>TxUserID = 7, TxPhoneNumber = ''628111'', TxStatus = ''paid''\<rparr>],
               query_errors = [False, True]\<rparr>) 7 = PaymentRequired ''no_payment''
   \<and> HandleAnalyze_gate (bound_to ''628111'')
        (Some \<lparr>transactions = [\<lparr>TxUserID = 7, TxPhoneNumber = ''628111'', TxStatus = ''paid''\<rparr>],
               query_errors = [True]\<rparr>) 7 = VerifyPaymentFailed"
  by (simp add: paid_for_def HandleAnalyze_gate_def bound_to_def CheckIfUserPaidForPhone_def
      CheckIfUserHasAnyPaidTransaction_def next_query_def int_of_uint_def Let_def)

theorem access_gate_decides_witness:
  "HandleAnalyze_gate (bound_to ''628111'')
        (Some \<lparr>transactions = [\<lparr>TxUserID = 7, TxPhoneNumber = ''628111'', TxStatus = ''paid''\<rparr>],
               query_errors = []\<rparr>) 7 = PaymentVerified
   \<and> HandleAnalyze_gate (bound_to ''628222'')
        (Some \<lparr>transactions = [\<lparr>TxUserID = 7, TxPhoneNumber = ''628111'', TxStatus = ''paid''\<rparr>],
               query_errors = []\<rparr>) 7 = PaymentRequired ''wrong_phone_number''
   \<and> HandleAnalyze_gate (bound_to ''628222'')
        (Some \<lparr>transactions = [\<lparr>TxUserID = 8, TxPhoneNumber = ''628222'', TxStatus = ''paid''\<rparr>,
                                \<lparr>TxUserID = 7, TxPhoneNumber = ''628222'', TxStatus = ''pending''\<rparr>],
               query_errors = []\<rparr>) 7 = PaymentRequired ''no_payment''"
proof -
  let ?ps = "\<lparr>transactions = [\<lparr>TxUserID = 7, TxPhoneNumber = ''628111'', TxStatus = ''paid''\<rparr>],
               query_errors = []\<rparr>"
  let ?ps' = "\<lparr>transactions = [\<lparr>TxUserID = 8, TxPhoneNumber = ''628222'', TxStatus = ''paid''\<rparr>,
                                \<lparr>TxUserID = 7, TxPhoneNumber = ''628222'', TxStatus = ''pending''\<rparr>],
               query_errors = []\<rparr>"
  have u: "int_of_uint 7 = 7" by (simp add: int_of_uint_def)
  have q: "\<not> query_fails ?ps 0" "\<not> query_fails ?ps 1" "\<not> query_fails ?ps' 0" "\<not> query_fails ?ps' 1"
    by (simp_all add: query_fails_def)
  have p: "paid_for (transactions ?ps) (int_of_uint 7) ''628111''"
    "\<not> paid_for (transactions ?ps) (int_of_uint 7) ''628222''"
    "\<not> paid_at_all (transactions ?ps') (int_of_uint 7)"
    by (auto simp add: paid_for_def paid_at_all_def u)
  have ne: "''628111'' \<noteq> []" "''628222'' \<noteq> []" by simp_all
  from access_gate_decides [of "''628222''" ?ps' 7 "''628111''" "''628222''"] q p ne
  have a: "HandleAnalyze_gate (bound_to ''628222'') (Some ?ps') 7 = PaymentRequired ''no_payment''"
    by blast
  from access_gate_decides [of "''628222''" ?ps 7 "''628111''" "''628222''"] q p ne
  have b: "HandleAnalyze_gate (bound_to ''628111'') (Some ?ps) 7 = PaymentVerified"
    "HandleAnalyze_gate (bound_to ''628222'') (Some ?ps) 7 = PaymentRequired ''wrong_phone_number''"
    by blast+
  from a b show ?thesis by blast
qed

end
